theory Spec2Isabelle
  imports Complex_Main "HOL-Library.Word" "HOL-Library.AList"
begin

section \<open>JavaScript values\<close>

text \<open>
  A JavaScript string is a sequence of UTF-16 code units; \<open>length\<close> and \<open>slice\<close> count
  code units. String literals of the source are embedded with \<open>js\<close>.
\<close>

type_synonym jstring = "16 word list"

definition js :: "string \<Rightarrow> jstring" where
  "js s = map of_char s"

text \<open>
  A value produced by \<open>JSON.parse\<close>. An object is the list of its own properties in
  insertion order. Numbers are kept as rationals: the functions below only test a number
  for being zero.
\<close>

datatype json =
    JNull
  | JBool bool
  | JNum rat
  | JStr jstring
  | JArr "json list"
  | JObj "(jstring \<times> json) list"

text \<open>Property read \<open>v.k\<close> on a non-nullish value; \<open>None\<close> is \<open>undefined\<close>.\<close>

fun get_prop :: "json \<Rightarrow> jstring \<Rightarrow> json option" where
  "get_prop (JObj kvs) k = map_of kvs k"
| "get_prop _ k = None"

text \<open>The operator \<open>k in v\<close> for an object; arrays own only index keys and \<open>length\<close>.\<close>

fun has_key :: "jstring \<Rightarrow> json \<Rightarrow> bool" where
  "has_key k (JObj kvs) = (map_of kvs k \<noteq> None)"
| "has_key k _ = False"

text \<open>JavaScript truthiness of a possibly undefined value.\<close>

fun truthy :: "json option \<Rightarrow> bool" where
  "truthy None = False"
| "truthy (Some JNull) = False"
| "truthy (Some (JBool b)) = b"
| "truthy (Some (JNum n)) = (n \<noteq> 0)"
| "truthy (Some (JStr s)) = (s \<noteq> [])"
| "truthy (Some (JArr _)) = True"
| "truthy (Some (JObj _)) = True"

text \<open>Object spread with one overridden property: \<open>{...o, k: v}\<close>.\<close>

definition spread_set :: "(jstring \<times> json) list \<Rightarrow> jstring \<Rightarrow> json \<Rightarrow> (jstring \<times> json) list" where
  "spread_set kvs k v = AList.update k v kvs"

section \<open>Response transformer\<close>

definition MAX_IMAGE_DIMENSION :: real where
  "MAX_IMAGE_DIMENSION = 1568"

definition MAX_IMAGE_PIXELS :: real where
  "MAX_IMAGE_PIXELS = 1.15 * 1024 * 1024"

definition MAX_TEXT_LENGTH :: nat where
  "MAX_TEXT_LENGTH = 4000"

definition truncation_marker :: jstring where
  "truncation_marker = 10 # js ''... [truncated]''"

text \<open>
  \<open>truncateText\<close> is only called on an item whose \<open>text\<close> property is a string; the
  text is passed along with the item's properties.
\<close>

definition truncateText :: "(jstring \<times> json) list \<Rightarrow> jstring \<Rightarrow> json" where
  "truncateText item text =
     (if length text \<le> MAX_TEXT_LENGTH then JObj item
      else JObj (spread_set item (js ''text'') (JStr (take MAX_TEXT_LENGTH text @ truncation_marker))))"

text \<open>
  Numbers are IEEE binary64 values. An arithmetic operation of the source gives the exact
  result rounded to the nearest such value, and that rounding is a parameter with the
  properties used here: it is monotone, it keeps every integer up to \<open>2^53\<close>, and in the
  normal range it moves a value by at most the fraction \<open>2^-53\<close> of it. \<open>Math.min\<close> and
  \<open>Math.round\<close> are exact, and \<open>Math.round x\<close> is \<open>\<lfloor>x + 1/2\<rfloor>\<close>, which is \<^const>\<open>round\<close>.
\<close>

definition binary64 :: "(real \<Rightarrow> real) \<Rightarrow> bool" where
  "binary64 fl =
     (mono fl \<and>
      (\<forall>n::int. \<bar>n\<bar> \<le> 2 ^ 53 \<longrightarrow> fl (of_int n) = of_int n) \<and>
      (\<forall>x. 1 / 2 ^ 1022 \<le> \<bar>x\<bar> \<and> \<bar>x\<bar> \<le> 2 ^ 1023 \<longrightarrow> \<bar>fl x - x\<bar> \<le> \<bar>x\<bar> / 2 ^ 53))"

typedef rounding = "{fl. binary64 fl}"
  morphisms to_nearest Abs_rounding
  by (rule exI [of _ id]) (simp add: binary64_def mono_def)

text \<open>
  The image library (\<open>sharp\<close>) is outside the repository, so its operations are
  parameters. Each takes the \<open>data\<close> property of the item and yields \<open>None\<close> where the
  JavaScript call throws or rejects (\<open>Buffer.from\<close> on a non-string included).
  \<^item> \<open>metadata\<close>: \<open>sharp(Buffer.from(data, "base64")).metadata()\<close>, the optional
    \<open>width\<close> and \<open>height\<close>;
  \<^item> \<open>webp\<close>: \<open>img.webp({quality: 80}).toBuffer()\<close>, as base64 text;
  \<^item> \<open>resize_webp\<close>: \<open>img.resize(width, height).webp({quality: 80}).toBuffer()\<close>,
    as base64 text;
  \<^item> \<open>double\<close>: the rounding of the platform's arithmetic.
\<close>

record sharp =
  metadata :: "json \<Rightarrow> (nat option \<times> nat option) option"
  webp :: "json \<Rightarrow> jstring option"
  resize_webp :: "json \<Rightarrow> int \<Rightarrow> int \<Rightarrow> jstring option"
  double :: rounding

text \<open>
  The shrink factor as the specification writes it, in exact arithmetic, and as the source
  computes it: the constant \<open>1.15 * 1024 * 1024\<close>, the product \<open>width * height\<close>, the
  three quotients and the square root are each rounded.
\<close>

definition shrink :: "nat \<Rightarrow> nat \<Rightarrow> real" where
  "shrink w h =
     min (MAX_IMAGE_DIMENSION / real w)
       (min (MAX_IMAGE_DIMENSION / real h)
         (min (sqrt (MAX_IMAGE_PIXELS / real (w * h))) 1))"

definition MAX_IMAGE_PIXELS64 :: "rounding \<Rightarrow> real" where
  "MAX_IMAGE_PIXELS64 r =
     to_nearest r (to_nearest r (to_nearest r (115 / 100) * 1024) * 1024)"

definition shrink64 :: "rounding \<Rightarrow> nat \<Rightarrow> nat \<Rightarrow> real" where
  "shrink64 r w h =
     min (to_nearest r (MAX_IMAGE_DIMENSION / real w))
       (min (to_nearest r (MAX_IMAGE_DIMENSION / real h))
         (min (to_nearest r (sqrt (to_nearest r
                 (MAX_IMAGE_PIXELS64 r / to_nearest r (real w * real h))))) 1))"

definition scaled_width :: "rounding \<Rightarrow> nat \<Rightarrow> nat \<Rightarrow> int" where
  "scaled_width r w h = round (to_nearest r (real w * shrink64 r w h))"

definition scaled_height :: "rounding \<Rightarrow> nat \<Rightarrow> nat \<Rightarrow> int" where
  "scaled_height r w h = round (to_nearest r (real h * shrink64 r w h))"

definition as_webp :: "(jstring \<times> json) list \<Rightarrow> jstring \<Rightarrow> json" where
  "as_webp item b =
     JObj (spread_set (spread_set item (js ''data'') (JStr b)) (js ''mimeType'') (JStr (js ''image/webp'')))"

text \<open>
  \<open>scaleImage\<close>: the whole body is inside \<open>try\<close>, and every failure returns the item.
  Reading \<open>item.data\<close> of \<open>null\<close> throws, of any other non-object gives \<open>undefined\<close>,
  on which \<open>Buffer.from\<close> throws.
\<close>

definition scaleImage :: "sharp \<Rightarrow> json \<Rightarrow> json" where
  "scaleImage env item =
     (case item of
        JObj kvs \<Rightarrow>
          (case map_of kvs (js ''data'') of
             None \<Rightarrow> item
           | Some d \<Rightarrow>
               (case metadata env d of
                  None \<Rightarrow> item
                | Some (None, _) \<Rightarrow> item
                | Some (Some w, None) \<Rightarrow> item
                | Some (Some w, Some h) \<Rightarrow>
                    if w = 0 \<or> h = 0 then item
                    else if shrink64 (double env) w h \<ge> 1 then
                      (if map_of kvs (js ''mimeType'') = Some (JStr (js ''image/webp'')) then item
                       else (case webp env d of None \<Rightarrow> item | Some b \<Rightarrow> as_webp kvs b))
                    else
                      (case resize_webp env d (scaled_width (double env) w h)
                              (scaled_height (double env) w h) of
                         None \<Rightarrow> item
                       | Some b \<Rightarrow> as_webp kvs b)))
      | _ \<Rightarrow> item)"

text \<open>An exception with its \<open>message\<close>.\<close>

datatype exn = Exn (message: jstring)

text \<open>The message V8 gives to reading \<open>type\<close> of \<open>null\<close>.\<close>

definition null_type_error :: exn where
  "null_type_error = Exn (js ''Cannot read properties of null (reading '' @ [39] @ js ''type'' @ [39] @ js '')'')"

text \<open>One round of the loop of \<open>transformMcpResponse\<close>: the value pushed for an item.\<close>

definition transform_item :: "sharp \<Rightarrow> json \<Rightarrow> exn + json" where
  "transform_item env item =
     (if item = JNull then Inl null_type_error
      else if get_prop item (js ''type'') = Some (JStr (js ''image'')) \<and> truthy (get_prop item (js ''data''))
        then Inr (scaleImage env item)
      else
        (case (item, get_prop item (js ''type''), get_prop item (js ''text'')) of
           (JObj kvs, Some (JStr t), Some (JStr text)) \<Rightarrow>
             if t = js ''text'' then Inr (truncateText kvs text) else Inr item
         | _ \<Rightarrow> Inr item))"

fun transform_items :: "sharp \<Rightarrow> json list \<Rightarrow> exn + json list" where
  "transform_items env [] = Inr []"
| "transform_items env (item # items) =
     (case transform_item env item of
        Inl e \<Rightarrow> Inl e
      | Inr item' \<Rightarrow>
          (case transform_items env items of
             Inl e \<Rightarrow> Inl e
           | Inr items' \<Rightarrow> Inr (item' # items')))"

definition isJsonRpcResponse :: "json \<Rightarrow> bool" where
  "isJsonRpcResponse msg =
     (has_key (js ''jsonrpc'') msg \<and> has_key (js ''id'') msg \<and> has_key (js ''result'') msg)"

definition transformMcpResponse :: "sharp \<Rightarrow> json \<Rightarrow> exn + json" where
  "transformMcpResponse env response =
     (if \<not> isJsonRpcResponse response then Inr response
      else
        (case response of
           JObj resp \<Rightarrow>
             (case map_of resp (js ''result'') of
                Some (JObj result) \<Rightarrow>
                  (case map_of result (js ''content'') of
                     Some (JArr content) \<Rightarrow>
                       (case transform_items env content of
                          Inl e \<Rightarrow> Inl e
                        | Inr content' \<Rightarrow>
                            Inr (JObj (spread_set resp (js ''result'')
                                   (JObj (spread_set result (js ''content'') (JArr content'))))))
                   | _ \<Rightarrow> Inr response)
              | _ \<Rightarrow> Inr response)
         | _ \<Rightarrow> Inr response))"

definition decode_or_encode_fails :: "sharp \<Rightarrow> json \<Rightarrow> bool" where
  "decode_or_encode_fails env d =
     (case metadata env d of
        None \<Rightarrow> True
      | Some (None, _) \<Rightarrow> True
      | Some (Some w, None) \<Rightarrow> True
      | Some (Some w, Some h) \<Rightarrow>
          w = 0 \<or> h = 0 \<or>
          (if shrink64 (double env) w h \<ge> 1 then webp env d = None
           else resize_webp env d (scaled_width (double env) w h)
                  (scaled_height (double env) w h) = None))"

definition is_image_item :: "json \<Rightarrow> bool" where
  "is_image_item item =
     (get_prop item (js ''type'') = Some (JStr (js ''image'')) \<and> truthy (get_prop item (js ''data'')))"

text \<open>Arithmetic without rounding error, for sample runs.\<close>

definition exact :: rounding where
  "exact = Abs_rounding id"

definition test_sharp :: sharp where
  "test_sharp = \<lparr>metadata = (\<lambda>d. if d = JStr (js ''AAAA'') then Some (Some 100, Some 50)
                                 else if d = JStr (js ''BBBB'') then Some (Some 3000, Some 2000)
                                 else None),
                 webp = (\<lambda>d. None),
                 resize_webp = (\<lambda>d w h. if w = 1345 \<and> h = 897 then Some (js ''CCCC'') else None),
                 double = exact\<rparr>"





section \<open>Protocol bridge\<close>

text \<open>
  The state of the bridge process: whether \<open>browser\<close> holds an engine instance launched
  by the bridge, the captured session token, what has been written to the output stream
  (one entry per line \<open>JSON.stringify(v) + "\n"\<close>, kept as the value \<open>v\<close>) and to the
  error stream, and the rejections of \<open>handleMessage\<close>, whose promise the line listener
  drops. One call of \<open>handleMessage\<close> is modelled as a whole; the bookkeeping of
  \<open>launching\<close>, which only matters to overlapping calls, is left out.
\<close>

record bridge =
  browser :: bool
  mcpSessionId :: "jstring option"
  stdout :: "json list"
  stderr :: "jstring list"
  unhandled :: "exn list"

text \<open>
  What the bridge's surroundings answer during one call:
  \<^item> \<open>JSON_parse\<close>: \<open>JSON.parse\<close>, with the \<open>SyntaxError\<close> it throws;
  \<^item> \<open>PORT\<close>: the decimal text of the configured port;
  \<^item> \<open>httpGet_status\<close>: the body of the status request, or its failure;
  \<^item> \<open>launch\<close>: whether \<open>launch\<close> resolves, or the error it rejects with;
  \<^item> \<open>forwardToMcp_http\<close>: for the posted line and the session header sent, the
    \<open>mcp-session-id\<close> header of the response when it is a string, and either the request's
    failure or the status code and body;
  \<^item> \<open>in_error\<close>: the \<open>TypeError\<close> of the operator \<open>in\<close> applied to a primitive;
  \<^item> \<open>images\<close>: the image library.
\<close>

record world =
  JSON_parse :: "jstring \<Rightarrow> exn + json"
  PORT :: jstring
  httpGet_status :: "exn + jstring"
  launch :: "exn + unit"
  forwardToMcp_http :: "jstring \<Rightarrow> jstring option \<Rightarrow> jstring option \<times> (exn + nat \<times> jstring)"
  in_error :: exn
  images :: sharp

definition log :: "jstring \<Rightarrow> bridge \<Rightarrow> bridge" where
  "log msg s = s\<lparr>stderr := stderr s @ [js ''[abp-proxy] '' @ msg @ [10]]\<rparr>"

text \<open>
  The object that \<open>sendError\<close> serialises; \<open>JSON.stringify\<close> leaves out a property
  whose value is \<open>undefined\<close>.
\<close>

definition error_reply :: "json option \<Rightarrow> rat \<Rightarrow> jstring \<Rightarrow> json" where
  "error_reply rid code msg =
     JObj ([(js ''jsonrpc'', JStr (js ''2.0''))] @
           (case rid of None \<Rightarrow> [] | Some v \<Rightarrow> [(js ''id'', v)]) @
           [(js ''error'', JObj [(js ''code'', JNum code), (js ''message'', JStr msg)])])"

definition sendError :: "json option \<Rightarrow> rat \<Rightarrow> jstring \<Rightarrow> bridge \<Rightarrow> bridge" where
  "sendError rid code msg s = s\<lparr>stdout := stdout s @ [error_reply rid code msg]\<rparr>"

text \<open>\<open>JSON.parse(status)?.data?.ready\<close>, inside \<open>try\<close>.\<close>

definition status_ready :: "world \<Rightarrow> bool" where
  "status_ready w =
     (case httpGet_status w of
        Inl _ \<Rightarrow> False
      | Inr body \<Rightarrow>
          (case JSON_parse w body of
             Inl _ \<Rightarrow> False
           | Inr v \<Rightarrow>
               (case get_prop v (js ''data'') of
                  None \<Rightarrow> False
                | Some d \<Rightarrow> truthy (get_prop d (js ''ready'')))))"

definition ensureBrowser :: "world \<Rightarrow> bridge \<Rightarrow> (exn + unit) \<times> bridge" where
  "ensureBrowser w s =
     (if browser s then (Inr (), s)
      else if status_ready w then
        (Inr (), log (js ''Connected to existing ABP on port '' @ PORT w) s)
      else
        (let s1 = log (js ''Launching ABP on port '' @ PORT w @ js ''...'') s in
         case launch w of
           Inr _ \<Rightarrow> (Inr (), log (js ''ABP ready on port '' @ PORT w) (s1\<lparr>browser := True\<rparr>))
         | Inl err \<Rightarrow> (Inl err, log (js ''Failed to launch ABP: '' @ message err) s1)))"

text \<open>
  \<open>forwardToMcp\<close>: a non-empty string header replaces the session token as soon as the
  response arrives, also when the request fails afterwards; status 202 gives the empty text.
\<close>

definition forwardToMcp :: "world \<Rightarrow> jstring \<Rightarrow> bridge \<Rightarrow> (exn + jstring) \<times> bridge" where
  "forwardToMcp w line s =
     (case forwardToMcp_http w line (mcpSessionId s) of
        (hdr, res) \<Rightarrow>
          (let s1 = (case hdr of
                       None \<Rightarrow> s
                     | Some h \<Rightarrow> if h = [] then s else s\<lparr>mcpSessionId := Some h\<rparr>)
           in (case res of
                 Inl err \<Rightarrow> (Inl err, s1)
               | Inr (status, raw) \<Rightarrow> (Inr (if status = 202 then [] else raw), s1))))"

text \<open>The \<open>catch\<close> of the forwarding block.\<close>

definition forward_failed :: "bool \<Rightarrow> json option \<Rightarrow> exn \<Rightarrow> bridge \<Rightarrow> bridge" where
  "forward_failed isRequest rid err s =
     (if isRequest then sendError rid (- 32000) (js ''Proxy error: '' @ message err) s
      else log (js ''Error forwarding notification: '' @ message err) s)"

text \<open>The forwarding block of \<open>handleMessage\<close>, from \<open>forwardToMcp(line)\<close> on.\<close>

definition forward_block :: "world \<Rightarrow> jstring \<Rightarrow> bool \<Rightarrow> json option \<Rightarrow> bridge \<Rightarrow> bridge" where
  "forward_block w line isRequest rid s =
     (case forwardToMcp w line s of
        (Inl err, s1) \<Rightarrow> forward_failed isRequest rid err s1
      | (Inr responseText, s1) \<Rightarrow>
          if responseText = [] then s1
          else
            (case JSON_parse w responseText of
               Inl err \<Rightarrow> forward_failed isRequest rid err s1
             | Inr parsed \<Rightarrow>
                 (case transformMcpResponse (images w) parsed of
                    Inl err \<Rightarrow> forward_failed isRequest rid err s1
                  | Inr transformed \<Rightarrow> s1\<lparr>stdout := stdout s1 @ [transformed]\<rparr>)))"

text \<open>
  The first block of \<open>handleMessage\<close>: \<open>ensureBrowser\<close> runs when
  \<open>msg.method || ""\<close> is \<open>"initialize"\<close>.
\<close>

definition launch_on_initialize :: "world \<Rightarrow> (jstring \<times> json) list \<Rightarrow> bridge \<Rightarrow> (exn + unit) \<times> bridge" where
  "launch_on_initialize w msg s =
     (if map_of msg (js ''method'') = Some (JStr (js ''initialize'')) then ensureBrowser w s
      else (Inr (), s))"

text \<open>
  \<open>handleMessage\<close>. The operator \<open>in\<close> throws on a parsed primitive or \<open>null\<close>, outside
  every \<open>try\<close>, so the call rejects there. An array has neither \<open>id\<close> nor \<open>method\<close>.
\<close>

definition handleMessage :: "world \<Rightarrow> jstring \<Rightarrow> bridge \<Rightarrow> bridge" where
  "handleMessage w line s =
     (case JSON_parse w line of
        Inl _ \<Rightarrow> log (js ''Invalid JSON: '' @ take 100 line) s
      | Inr msg \<Rightarrow>
          (case msg of
             JObj kvs \<Rightarrow>
               (let isRequest = has_key (js ''id'') msg;
                    rid = map_of kvs (js ''id'')
                in case launch_on_initialize w kvs s of
                     (Inl err, s1) \<Rightarrow>
                       sendError rid (- 32000) (js ''Failed to launch ABP: '' @ message err) s1
                   | (Inr _, s1) \<Rightarrow> forward_block w line isRequest rid s1)
           | JArr _ \<Rightarrow> forward_block w line False None s
           | _ \<Rightarrow> s\<lparr>unhandled := unhandled s @ [in_error w]\<rparr>))"

text \<open>\<open>String.prototype.trim\<close> removes white space and line terminators at both ends.\<close>

definition is_space :: "16 word \<Rightarrow> bool" where
  "is_space c =
     (c \<in> {9, 10, 11, 12, 13, 32, 160, 5760, 8232, 8233, 8239, 8287, 12288, 65279} \<or>
      (8192 \<le> c \<and> c \<le> 8202))"

definition trim :: "jstring \<Rightarrow> jstring" where
  "trim s = rev (dropWhile is_space (rev (dropWhile is_space s)))"

text \<open>The listener of the \<open>line\<close> event, and the lines of the input in their order.\<close>

definition on_line :: "world \<Rightarrow> jstring \<Rightarrow> bridge \<Rightarrow> bridge" where
  "on_line w line s = (if trim line \<noteq> [] then handleMessage w line s else s)"

fun on_lines :: "world \<Rightarrow> jstring list \<Rightarrow> bridge \<Rightarrow> bridge" where
  "on_lines w [] s = s"
| "on_lines w (line # rest) s = on_lines w rest (on_line w line s)"

text \<open>A sample run: an engine that refuses every connection, a request and a notification.\<close>

definition quoted :: "string \<Rightarrow> jstring" where
  "quoted s = 34 # js s @ [34]"

definition request_line :: jstring where
  "request_line = js ''{'' @ quoted ''jsonrpc'' @ js '':'' @ quoted ''2.0'' @ js '','' @
     quoted ''id'' @ js '':7,'' @ quoted ''method'' @ js '':'' @ quoted ''tools/list'' @ js ''}''"

definition notification_line :: jstring where
  "notification_line = js ''{'' @ quoted ''jsonrpc'' @ js '':'' @ quoted ''2.0'' @ js '','' @
     quoted ''method'' @ js '':'' @ quoted ''notifications/initialized'' @ js ''}''"

definition refused :: exn where
  "refused = Exn (js ''connect ECONNREFUSED 127.0.0.1:8222'')"

definition test_world :: world where
  "test_world =
     \<lparr>JSON_parse = (\<lambda>l.
          if l = request_line then
            Inr (JObj [(js ''jsonrpc'', JStr (js ''2.0'')), (js ''id'', JNum 7),
                       (js ''method'', JStr (js ''tools/list''))])
          else if l = notification_line then
            Inr (JObj [(js ''jsonrpc'', JStr (js ''2.0'')),
                       (js ''method'', JStr (js ''notifications/initialized''))])
          else Inl (Exn (js ''Unexpected token''))),
      PORT = js ''8222'',
      httpGet_status = Inl refused,
      launch = Inl refused,
      forwardToMcp_http = (\<lambda>l sid. (None, Inl refused)),
      in_error = Exn (js ''Cannot use in operator''),
      images = test_sharp\<rparr>"

definition idle_bridge :: bridge where
  "idle_bridge = \<lparr>browser = False, mcpSessionId = None, stdout = [], stderr = [], unhandled = []\<rparr>"

section \<open>Process supervisor\<close>

text \<open>
  A child process handle with its \<open>exitCode\<close> (\<open>null\<close> while the process runs), the
  events pushed to the subscribers by \<open>broadcastSSE\<close>, and the signals sent with \<open>kill\<close>.
\<close>

record child =
  exitCode :: "int option"

datatype sse_event = AbpStatus bool | Refresh int | SessionChanged jstring

datatype signal = SIGTERM | SIGKILL

datatype stdio = Ignore | Pipe

record spawn_call =
  binary :: jstring
  args :: "jstring list"
  stdin_mode :: stdio
  stdout_mode :: stdio
  stderr_mode :: stdio

record supervisor =
  abpProcess :: "child option"
  spawn_calls :: "spawn_call list"
  signals :: "signal list"
  sse :: "sse_event list"
  mkdirs :: "jstring list"

record LaunchConfig =
  sessionDir :: jstring
  executablePath :: "jstring option"
  windowWidth :: "nat option"
  windowHeight :: "nat option"
  headless :: "bool option"
  extraArgs :: "jstring list option"

text \<open>The result object: \<open>{ok: true}\<close> or \<open>{ok: false, error}\<close>; a rejection apart.\<close>

datatype start_result = Started | Failed jstring

datatype outcome = Returned start_result | Rejected exn

text \<open>
  What the handlers registered on the child do: data on the error stream is appended to
  \<open>stderrOutput\<close>, an \<open>error\<close> event clears the handle, an \<open>exit\<close> event clears the
  handle and tells the subscribers.
\<close>

datatype child_event = StderrData jstring | ChildError jstring | ChildExit "int option"

fun on_event :: "child_event \<Rightarrow> supervisor \<times> jstring \<Rightarrow> supervisor \<times> jstring" where
  "on_event (StderrData chunk) (s, out) = (s, out @ chunk)"
| "on_event (ChildError m) (s, out) = (s\<lparr>abpProcess := None\<rparr>, out)"
| "on_event (ChildExit code) (s, out) =
     (s\<lparr>abpProcess := None, sse := sse s @ [AbpStatus False]\<rparr>, out)"

fun deliver :: "child_event list \<Rightarrow> supervisor \<times> jstring \<Rightarrow> supervisor \<times> jstring" where
  "deliver [] st = st"
| "deliver (e # es) st = deliver es (on_event e st)"

text \<open>
  One round of the readiness loop as the surroundings script it: the events delivered
  since the previous round, the milliseconds \<open>Date.now() - start\<close> read by the loop test,
  the answer of \<open>checkAbpStatus\<close>, and the events delivered while that answer was awaited.
\<close>

record poll =
  events :: "child_event list"
  elapsed :: nat
  healthy :: bool
  probe_events :: "child_event list"

record sys =
  url_port :: "jstring \<Rightarrow> nat option"
  existsSync :: "jstring \<Rightarrow> bool"
  mkdirSync :: "jstring \<Rightarrow> exn option"
  initial_healthy :: bool
  spawn_result :: "exn + child"

function dec :: "nat \<Rightarrow> jstring" where
  "dec n = (if n < 10 then [48 + of_nat n] else dec (n div 10) @ [48 + of_nat (n mod 10)])"
  by pat_completeness auto
termination
  by (relation "measure id") auto

definition getAbpPort :: "sys \<Rightarrow> jstring \<Rightarrow> nat" where
  "getAbpPort w abpUrl =
     (case url_port w abpUrl of None \<Rightarrow> 8222 | Some p \<Rightarrow> if p = 0 then 8222 else p)"

definition or_default :: "nat option \<Rightarrow> nat \<Rightarrow> nat" where
  "or_default v d = (case v of None \<Rightarrow> d | Some n \<Rightarrow> if n = 0 then d else n)"

definition launchArgs :: "nat \<Rightarrow> LaunchConfig \<Rightarrow> jstring list" where
  "launchArgs port config =
     [js ''--abp-port='' @ dec port,
      js ''--abp-session-dir='' @ sessionDir config,
      js ''--no-first-run'',
      js ''--no-default-browser-check'',
      js ''--abp-window-size='' @ dec (or_default (windowWidth config) 1280) @ js '','' @
        dec (or_default (windowHeight config) 800)] @
     (if headless config = Some True then [js ''--headless=new''] else []) @
     (case extraArgs config of
        None \<Rightarrow> []
      | Some xs \<Rightarrow> map (\<lambda>a. if a = js ''--headless'' then js ''--headless=new'' else a) xs)"

definition is_live :: "supervisor \<Rightarrow> bool" where
  "is_live s = (case abpProcess s of None \<Rightarrow> False | Some c \<Rightarrow> exitCode c = None)"

text \<open>\<open>stderrOutput.trim().slice(0, 200)\<close> and the suffix it gives to the error text.\<close>

definition hint :: "jstring \<Rightarrow> jstring" where
  "hint stderrOutput = take 200 (trim stderrOutput)"

definition with_hint :: "jstring \<Rightarrow> jstring \<Rightarrow> jstring" where
  "with_hint msg stderrOutput =
     msg @ (if hint stderrOutput = [] then [] else js '': '' @ hint stderrOutput)"

text \<open>
  The readiness loop and the code after it. The list is the script of the rounds; when it
  ends before the loop does, the model has no answer (\<open>None\<close>).
\<close>

fun wait_ready :: "poll list \<Rightarrow> jstring \<Rightarrow> supervisor \<Rightarrow> (start_result \<times> supervisor) option" where
  "wait_ready [] out s = None"
| "wait_ready (p # ps) out s =
     (case deliver (events p) (s, out) of
        (s1, out1) \<Rightarrow>
          if elapsed p < 15000 then
            (if \<not> is_live s1 then
               Some (Failed (with_hint (js ''ABP process exited immediately'') out1), s1)
             else
               (case deliver (probe_events p) (s1, out1) of
                  (s2, out2) \<Rightarrow>
                    if healthy p then Some (Started, s2\<lparr>sse := sse s2 @ [AbpStatus True]\<rparr>)
                    else wait_ready ps out2 s2))
          else
            Some (Failed (with_hint (js ''ABP failed to start within 15 seconds'') out1),
                  (if abpProcess s1 \<noteq> None
                   then s1\<lparr>abpProcess := None, signals := signals s1 @ [SIGTERM]\<rparr>
                   else s1)))"

definition startAbp :: "sys \<Rightarrow> poll list \<Rightarrow> jstring \<Rightarrow> LaunchConfig \<Rightarrow> supervisor \<Rightarrow> (outcome \<times> supervisor) option" where
  "startAbp w polls abpUrl config s =
     (if is_live s then Some (Returned (Failed (js ''ABP process already running'')), s)
      else if initial_healthy w then
        Some (Returned (Failed (js ''ABP is already running at '' @ abpUrl)), s)
      else
        (case executablePath config of
           None \<Rightarrow>
             Some (Returned (Failed (js ''ABP binary not found. Set --abp-binary, ABP_BROWSER_PATH, or specify in launch config.'')), s)
         | Some binaryPath \<Rightarrow>
             if binaryPath = [] then
               Some (Returned (Failed (js ''ABP binary not found. Set --abp-binary, ABP_BROWSER_PATH, or specify in launch config.'')), s)
             else if \<not> existsSync w binaryPath then
               Some (Returned (Failed (js ''ABP binary not found at: '' @ binaryPath)), s)
             else
               (case (if existsSync w (sessionDir config) then None else mkdirSync w (sessionDir config)) of
                  Some err \<Rightarrow> Some (Rejected err, s)
                | None \<Rightarrow>
                    (let s1 = (if existsSync w (sessionDir config) then s
                               else s\<lparr>mkdirs := mkdirs s @ [sessionDir config]\<rparr>);
                         s2 = s1\<lparr>spawn_calls := spawn_calls s1 @
                                 [\<lparr>binary = binaryPath,
                                   args = launchArgs (getAbpPort w abpUrl) config,
                                   stdin_mode = Ignore, stdout_mode = Ignore, stderr_mode = Pipe\<rparr>]\<rparr>
                     in case spawn_result w of
                          Inl err \<Rightarrow>
                            Some (Returned (Failed (js ''Failed to spawn ABP: '' @ message err)), s2)
                        | Inr c \<Rightarrow>
                            (case wait_ready polls [] (s2\<lparr>abpProcess := Some c\<rparr>) of
                               None \<Rightarrow> None
                             | Some (r, s3) \<Rightarrow> Some (Returned r, s3))))))"

text \<open>
  Vocabulary for the readiness wait: events that are only data on the error stream, the
  text they carry, and a round within the ceiling in which the engine is neither seen
  healthy nor reported gone.
\<close>

fun is_data :: "child_event \<Rightarrow> bool" where
  "is_data (StderrData _) = True"
| "is_data _ = False"

fun stderr_text :: "child_event list \<Rightarrow> jstring" where
  "stderr_text [] = []"
| "stderr_text (StderrData chunk # es) = chunk @ stderr_text es"
| "stderr_text (_ # es) = stderr_text es"

definition idle_poll :: "poll \<Rightarrow> bool" where
  "idle_poll p =
     (elapsed p < 15000 \<and> \<not> healthy p \<and> list_all is_data (events p) \<and>
      list_all is_data (probe_events p))"

fun captured :: "poll list \<Rightarrow> jstring" where
  "captured [] = []"
| "captured (p # ps) = stderr_text (events p) @ stderr_text (probe_events p) @ captured ps"

text \<open>The preliminary checks of \<open>startAbp\<close> pass and \<open>spawn\<close> returns a running child.\<close>

definition spawns :: "sys \<Rightarrow> LaunchConfig \<Rightarrow> supervisor \<Rightarrow> bool" where
  "spawns w config s =
     (\<not> is_live s \<and> \<not> initial_healthy w \<and>
      (case executablePath config of
         None \<Rightarrow> False
       | Some binaryPath \<Rightarrow> binaryPath \<noteq> [] \<and> existsSync w binaryPath) \<and>
      (existsSync w (sessionDir config) \<or> mkdirSync w (sessionDir config) = None) \<and>
      (case spawn_result w of Inl _ \<Rightarrow> False | Inr c \<Rightarrow> exitCode c = None))"

text \<open>
  The two errors of the readiness wait under the names the specification gives them, with
  the text captured from the error stream.
\<close>

definition LaunchTimeout :: "jstring \<Rightarrow> start_result" where
  "LaunchTimeout captured_text =
     Failed (with_hint (js ''ABP failed to start within 15 seconds'') captured_text)"

definition LaunchFailed :: "jstring \<Rightarrow> start_result" where
  "LaunchFailed captured_text =
     Failed (with_hint (js ''ABP process exited immediately'') captured_text)"

text \<open>
  How a failed wait leaves the supervisor: no handle, the given signals sent to the
  child, and one more process spawned, with only its error stream connected.
\<close>

definition gave_up :: "supervisor \<Rightarrow> signal list \<Rightarrow> supervisor \<Rightarrow> bool" where
  "gave_up s sent s' =
     (abpProcess s' = None \<and> signals s' = signals s @ sent \<and>
      length (spawn_calls s') = Suc (length (spawn_calls s)) \<and>
      butlast (spawn_calls s') = spawn_calls s \<and>
      stdin_mode (last (spawn_calls s')) = Ignore \<and>
      stdout_mode (last (spawn_calls s')) = Ignore \<and>
      stderr_mode (last (spawn_calls s')) = Pipe)"

text \<open>A sample supervisor, launch configuration and surroundings.\<close>

definition idle_supervisor :: supervisor where
  "idle_supervisor = \<lparr>abpProcess = None, spawn_calls = [], signals = [], sse = [], mkdirs = []\<rparr>"

definition test_config :: LaunchConfig where
  "test_config = \<lparr>sessionDir = js ''/tmp/s'', executablePath = Some (js ''/opt/abp''),
     windowWidth = None, windowHeight = None, headless = Some True, extraArgs = None\<rparr>"

definition test_sys :: sys where
  "test_sys = \<lparr>url_port = (\<lambda>_. Some 8222), existsSync = (\<lambda>p. p = js ''/opt/abp''),
     mkdirSync = (\<lambda>_. None), initial_healthy = False,
     spawn_result = Inr \<lparr>exitCode = None\<rparr>\<rparr>"

definition waiting :: poll where
  "waiting = \<lparr>events = [StderrData (js ''starting '')], elapsed = 14800, healthy = False,
     probe_events = []\<rparr>"

definition too_late :: poll where
  "too_late = \<lparr>events = [StderrData (js ''still starting'')], elapsed = 15100, healthy = False,
     probe_events = []\<rparr>"

definition crashed :: poll where
  "crashed = \<lparr>events = [StderrData (js ''no display''), ChildExit (Some 1)], elapsed = 14900,
     healthy = False, probe_events = []\<rparr>"

definition late_exit :: poll where
  "late_exit = \<lparr>events = [StderrData (js ''no display''), ChildExit (Some 1)], elapsed = 15100,
     healthy = False, probe_events = []\<rparr>"

section \<open>Session attacher\<close>

text \<open>
  The variables of \<open>main\<close> that the attacher owns. A store or watcher handle is the
  number it got when it was created, and every close, open and watch is logged, so that a
  handle left in place can be told from one closed and reopened on the same directory.
\<close>

datatype store_op =
    DbClose nat
  | DbOpen nat jstring
  | WatcherClose nat
  | WatcherStart nat jstring

record attachment =
  currentSessionDir :: jstring
  db :: "nat option"
  sessionId :: jstring
  lastMaxId :: int
  watcher :: "nat option"
  lastAbpRunning :: bool
  next_handle :: nat
  ops :: "store_op list"
  broadcasts :: "sse_event list"

text \<open>
  What the engine, the file system and the store answer:
  \<^item> \<open>session_data\<close>: the \<open>session_dir\<close> resolved by \<open>fetchAbpSessionData\<close>, if any;
  \<^item> \<open>db_exists\<close>: whether \<open>history.db\<close> exists in a directory;
  \<^item> \<open>db_open\<close>: the error thrown by \<open>new Database\<close> on it, if any;
  \<^item> \<open>db_pragma\<close>: the error thrown by \<open>db.pragma\<close>, if any;
  \<^item> \<open>latest_session\<close>: the identifier of the most recent session row, by \<open>getSession\<close>;
  \<^item> \<open>max_action\<close>: \<open>MAX(id)\<close> over the actions of a session, \<open>None\<close> for \<open>NULL\<close>;
  \<^item> \<open>watch\<close>: the error thrown by \<open>fs.watch\<close> on a directory, if any.
\<close>

record store_world =
  session_data :: "jstring option"
  db_exists :: "jstring \<Rightarrow> bool"
  db_open :: "jstring \<Rightarrow> exn option"
  db_pragma :: "jstring \<Rightarrow> exn option"
  latest_session :: "jstring \<Rightarrow> exn + jstring option"
  max_action :: "jstring \<Rightarrow> jstring \<Rightarrow> exn + int option"
  watch :: "jstring \<Rightarrow> exn option"

text \<open>\<open>row.max_id || 0\<close>.\<close>

definition max_or_zero :: "int option \<Rightarrow> int" where
  "max_or_zero m = (case m of None \<Rightarrow> 0 | Some n \<Rightarrow> n)"

text \<open>
  \<open>openSessionDb\<close>. Only the close of the old store is inside \<open>try\<close>; every other
  failure leaves the function by an exception, with the assignments made so far: a failed
  \<open>new Database\<close> leaves \<open>db\<close> on the closed handle, a failed pragma or query leaves it on
  the new one, and a failed \<open>fs.watch\<close> leaves \<open>watcher\<close> on the closed watcher.
\<close>

definition openSessionDb :: "store_world \<Rightarrow> jstring \<Rightarrow> attachment \<Rightarrow> (exn + bool) \<times> attachment" where
  "openSessionDb w dir s =
     (if \<not> db_exists w dir then (Inr False, s)
      else
        (let s1 = (case db s of None \<Rightarrow> s | Some h \<Rightarrow> s\<lparr>ops := ops s @ [DbClose h]\<rparr>) in
         case db_open w dir of
           Some err \<Rightarrow> (Inl err, s1)
         | None \<Rightarrow>
             (let s2 = s1\<lparr>db := Some (next_handle s1), next_handle := Suc (next_handle s1),
                          ops := ops s1 @ [DbOpen (next_handle s1) dir]\<rparr> in
              case db_pragma w dir of
                Some err \<Rightarrow> (Inl err, s2)
              | None \<Rightarrow>
                  (case latest_session w dir of
                     Inl err \<Rightarrow> (Inl err, s2)
                   | Inr None \<Rightarrow> (Inr False, s2)
                   | Inr (Some sid) \<Rightarrow>
                       (case max_action w dir sid of
                          Inl err \<Rightarrow> (Inl err, s2\<lparr>sessionId := sid\<rparr>)
                        | Inr m \<Rightarrow>
                            (let s3 = s2\<lparr>sessionId := sid, lastMaxId := max_or_zero m,
                                         currentSessionDir := dir\<rparr>;
                                 s4 = (case watcher s3 of
                                         None \<Rightarrow> s3
                                       | Some h \<Rightarrow> s3\<lparr>ops := ops s3 @ [WatcherClose h]\<rparr>)
                             in case watch w dir of
                                  Some err \<Rightarrow> (Inl err, s4)
                                | None \<Rightarrow>
                                    (Inr True,
                                     s4\<lparr>watcher := Some (next_handle s4),
                                        next_handle := Suc (next_handle s4),
                                        ops := ops s4 @ [WatcherStart (next_handle s4) dir]\<rparr>)))))))"

text \<open>
  The body of the debounced callback of the watcher, on the answer the store gives to
  \<open>getMaxActionId\<close> when the timer fires; an error of the store is swallowed.
\<close>

definition on_settled :: "exn + int option \<Rightarrow> attachment \<Rightarrow> attachment" where
  "on_settled q s =
     (if db s = None then s
      else
        (case q of
           Inl _ \<Rightarrow> s
         | Inr m \<Rightarrow>
             if max_or_zero m > lastMaxId s then
               s\<lparr>lastMaxId := max_or_zero m,
                 broadcasts := broadcasts s @ [Refresh (max_or_zero m)]\<rparr>
             else s))"

fun settle_all :: "(exn + int option) list \<Rightarrow> attachment \<Rightarrow> attachment" where
  "settle_all [] s = s"
| "settle_all (q # qs) s = settle_all qs (on_settled q s)"

definition attachToAbp :: "store_world \<Rightarrow> attachment \<Rightarrow> (exn + bool) \<times> attachment" where
  "attachToAbp w s =
     (case session_data w of
        None \<Rightarrow> (Inr False, s)
      | Some dir \<Rightarrow>
          (case openSessionDb w dir s of
             (Inl err, s1) \<Rightarrow> (Inl err, s1)
           | (Inr opened, s1) \<Rightarrow>
               (Inr opened,
                if opened then s1\<lparr>broadcasts := broadcasts s1 @ [SessionChanged (currentSessionDir s1)]\<rparr>
                else s1)))"

text \<open>
  The reconciliation done by the status route, on the answer \<open>running\<close> of the health
  probe. The result of \<open>openSessionDb\<close> is not looked at there.
\<close>

definition reattach :: "store_world \<Rightarrow> jstring \<Rightarrow> attachment \<Rightarrow> exn option \<times> attachment" where
  "reattach w dir s =
     (case openSessionDb w dir s of
        (Inl err, s1) \<Rightarrow> (Some err, s1)
      | (Inr _, s1) \<Rightarrow>
          (None, s1\<lparr>broadcasts := broadcasts s1 @ [SessionChanged (currentSessionDir s1)]\<rparr>))"

definition went_offline :: "attachment \<Rightarrow> attachment" where
  "went_offline s =
     (let s1 = (case db s of None \<Rightarrow> s | Some h \<Rightarrow> s\<lparr>db := None, ops := ops s @ [DbClose h]\<rparr>);
          s2 = (case watcher s1 of
                  None \<Rightarrow> s1
                | Some h \<Rightarrow> s1\<lparr>watcher := None, ops := ops s1 @ [WatcherClose h]\<rparr>)
      in s2\<lparr>sessionId := [], currentSessionDir := [],
            broadcasts := broadcasts s2 @ [SessionChanged []]\<rparr>)"

definition control_status :: "store_world \<Rightarrow> bool \<Rightarrow> attachment \<Rightarrow> exn option \<times> attachment" where
  "control_status w running s =
     (case (if running \<and> (\<not> lastAbpRunning s \<or> db s = None) then
              (case session_data w of
                 None \<Rightarrow> (None, s)
               | Some dir \<Rightarrow>
                   if dir \<noteq> currentSessionDir s then reattach w dir s
                   else if db s = None then reattach w dir s
                   else (None, s))
            else (None, s)) of
        (Some err, s1) \<Rightarrow> (Some err, s1)
      | (None, s1) \<Rightarrow>
          (None, (if \<not> running \<and> lastAbpRunning s1 then went_offline s1 else s1)
                   \<lparr>lastAbpRunning := running\<rparr>))"

text \<open>A sample attachment on the directory the engine still reports.\<close>

definition attached :: attachment where
  "attached = \<lparr>currentSessionDir = js ''/tmp/s'', db = Some 0, sessionId = js ''s1'',
     lastMaxId = 4, watcher = Some 1, lastAbpRunning = True, next_handle = 2, ops = [],
     broadcasts = []\<rparr>"

definition test_store :: store_world where
  "test_store = \<lparr>session_data = Some (js ''/tmp/s''), db_exists = (\<lambda>_. True),
     db_open = (\<lambda>_. None), db_pragma = (\<lambda>_. None),
     latest_session = (\<lambda>_. Inr (Some (js ''s1''))),
     max_action = (\<lambda>_ _. Inr (Some 4)), watch = (\<lambda>_. None)\<rparr>"

text \<open>Nothing was closed, opened or replaced between two states.\<close>

definition handles_in_place :: "attachment \<Rightarrow> attachment \<Rightarrow> bool" where
  "handles_in_place s s' = (db s' = db s \<and> watcher s' = watcher s \<and> ops s' = ops s)"

text \<open>Every answer that lets \<open>attachToAbp\<close> run to its end on a directory.\<close>

definition attachable :: "store_world \<Rightarrow> jstring \<Rightarrow> jstring \<Rightarrow> int option \<Rightarrow> bool" where
  "attachable w dir sid m =
     (session_data w = Some dir \<and> db_exists w dir \<and> db_open w dir = None \<and>
      db_pragma w dir = None \<and> latest_session w dir = Inr (Some sid) \<and>
      max_action w dir sid = Inr m \<and> watch w dir = None)"

text \<open>The log entry of closing a handle that is set.\<close>

definition closing :: "(nat \<Rightarrow> store_op) \<Rightarrow> nat option \<Rightarrow> store_op list" where
  "closing c h = (case h of None \<Rightarrow> [] | Some n \<Rightarrow> [c n])"

section \<open>Embedded string literals\<close>

lemma of_char_lt_256: "(of_char c :: nat) < 256"
  by (metis of_char_mod_256 mod_less_divisor zero_less_numeral)

lemma unat_of_char: "unat (of_char c :: 16 word) = of_char c"
proof -
  have "(of_char c :: 16 word) = of_nat (of_char c)"
    by (simp add: of_nat_of_char)
  moreover have "(of_char c :: nat) < 2 ^ 16"
    by (rule less_trans [OF of_char_lt_256]) simp
  ultimately show ?thesis
    by (simp add: unat_of_nat take_bit_nat_eq_self)
qed

lemma of_char_word_eq_iff: "(of_char c :: 16 word) = of_char d \<longleftrightarrow> c = d"
  by (metis unat_of_char of_char_eq_iff)

lemma js_eq_iff [simp]: "js a = js b \<longleftrightarrow> a = b"
proof -
  have "inj (of_char :: char \<Rightarrow> 16 word)"
    by (rule injI) (simp add: of_char_word_eq_iff)
  then show ?thesis
    by (simp add: js_def inj_map_eq_map)
qed

lemma length_js [simp]: "length (js s) = length s"
  by (simp add: js_def)

lemma js_Nil_iff [simp]: "js s = [] \<longleftrightarrow> s = []"
  by (simp add: js_def)

lemma js_append [simp]: "js a @ js b = js (a @ b)" "js a @ js b @ c = js (a @ b) @ c"
  by (simp_all add: js_def)

lemma length_truncation_marker: "length truncation_marker = 16"
  by (simp add: truncation_marker_def)

section \<open>Text truncation\<close>




section \<open>Double-precision arithmetic\<close>

lemma binary64_to_nearest: "binary64 (to_nearest r)"
  using to_nearest [of r] by simp

lemma fl_mono: "x \<le> y \<Longrightarrow> to_nearest r x \<le> to_nearest r y"
  using binary64_to_nearest [of r] by (simp add: binary64_def mono_def)

lemma fl_int: "\<bar>n\<bar> \<le> 2 ^ 53 \<Longrightarrow> to_nearest r (of_int n) = of_int n"
  using binary64_to_nearest [of r] by (simp add: binary64_def)

lemma fl_0 [simp]: "to_nearest r 0 = 0"
  using fl_int [of 0 r] by simp

lemma fl_1 [simp]: "to_nearest r 1 = 1"
  using fl_int [of 1 r] by simp

lemma fl_nat: "n \<le> 2 ^ 53 \<Longrightarrow> to_nearest r (real n) = real n"
proof -
  assume "n \<le> 2 ^ 53"
  then have "\<bar>int n\<bar> \<le> 2 ^ 53" by (simp add: of_nat_le_iff [symmetric] del: of_nat_le_iff)
  from fl_int [OF this, of r] show ?thesis by simp
qed

lemma normal_range:
  fixes x :: real
  assumes "1 / 2 ^ 64 \<le> x" and "x \<le> 2 ^ 64"
  shows "1 / 2 ^ 1022 \<le> \<bar>x\<bar> \<and> \<bar>x\<bar> \<le> 2 ^ 1023"
proof -
  have "(2::real) ^ 64 \<le> 2 ^ 1022" by (rule power_increasing) simp_all
  then have "1 / (2::real) ^ 1022 \<le> 1 / 2 ^ 64"
    by (simp add: frac_le)
  moreover have "(2::real) ^ 64 \<le> 2 ^ 1023" by (rule power_increasing) simp_all
  moreover have "0 < x" using assms(1) by (rule less_le_trans [rotated]) simp
  ultimately show ?thesis using assms by simp
qed

lemma fl_rel:
  fixes x :: real
  assumes "1 / 2 ^ 64 \<le> x" and "x \<le> 2 ^ 64"
  shows "x * (999999999 / 1000000000) \<le> to_nearest r x" and "to_nearest r x \<le> x * (1000000001 / 1000000000)"
proof -
  have x: "0 < x" using assms(1) by (rule less_le_trans [rotated]) simp
  have "\<bar>to_nearest r x - x\<bar> \<le> \<bar>x\<bar> / 2 ^ 53"
    using binary64_to_nearest [of r] normal_range [OF assms] by (simp add: binary64_def)
  then have e: "\<bar>to_nearest r x - x\<bar> \<le> x / 2 ^ 53" using x by simp
  have "x / 2 ^ 53 \<le> x / 1000000000"
    using x by (intro divide_left_mono) simp_all
  with e have "\<bar>to_nearest r x - x\<bar> \<le> x / 1000000000" by (rule order_trans)
  then have "x - x / 1000000000 \<le> to_nearest r x \<and> to_nearest r x \<le> x + x / 1000000000"
    by argo
  then show "x * (999999999 / 1000000000) \<le> to_nearest r x" and "to_nearest r x \<le> x * (1000000001 / 1000000000)"
    by (simp_all add: algebra_simps)
qed

lemma exact_id [simp]: "to_nearest exact = id"
  unfolding exact_def by (rule Abs_rounding_inverse) (simp add: binary64_def mono_def)



lemma MAX_IMAGE_PIXELS64_bounds:
  "12058623 / 10 \<le> MAX_IMAGE_PIXELS64 r" "MAX_IMAGE_PIXELS64 r \<le> 12058625 / 10"
proof -
  let ?a = "to_nearest r (115 / 100)"
  let ?b = "to_nearest r (?a * 1024)"
  have a1: "(115 / 100) * (999999999 / 1000000000) \<le> ?a" by (rule fl_rel(1)) simp_all
  have a2: "?a \<le> (115 / 100) * (1000000001 / 1000000000)" by (rule fl_rel(2)) simp_all
  have a1': "1149 / 1000 \<le> ?a" using a1 by simp
  have a2': "?a \<le> 1151 / 1000" using a2 by simp
  have b1: "(?a * 1024) * (999999999 / 1000000000) \<le> ?b"
    by (rule fl_rel(1)) (use a1' a2' in simp_all)
  have b2: "?b \<le> (?a * 1024) * (1000000001 / 1000000000)"
    by (rule fl_rel(2)) (use a1' a2' in simp_all)
  have b1': "1176 \<le> ?b" using b1 a1' by argo
  have b2': "?b \<le> 1179" using b2 a2' by argo
  have c1: "(?b * 1024) * (999999999 / 1000000000) \<le> MAX_IMAGE_PIXELS64 r"
    unfolding MAX_IMAGE_PIXELS64_def by (rule fl_rel(1)) (use b1' b2' in simp_all)
  have c2: "MAX_IMAGE_PIXELS64 r \<le> (?b * 1024) * (1000000001 / 1000000000)"
    unfolding MAX_IMAGE_PIXELS64_def by (rule fl_rel(2)) (use b1' b2' in simp_all)
  show "12058623 / 10 \<le> MAX_IMAGE_PIXELS64 r"
    using a1 b1 c1 by argo
  show "MAX_IMAGE_PIXELS64 r \<le> 12058625 / 10"
    using a2 b2 c2 by argo
qed



lemma fl_ge_1: "1 \<le> x \<Longrightarrow> 1 \<le> to_nearest r x"
  using fl_mono [of 1 x r] by simp

lemma pixels_exact:
  assumes "real (w * h) \<le> 2 ^ 53"
  shows "to_nearest r (real w * real h) = real (w * h)"
proof -
  from assms have "real (w * h) \<le> real (2 ^ 53)" by simp
  then have "w * h \<le> 2 ^ 53" by (simp only: of_nat_le_iff)
  from fl_nat [OF this, of r] show ?thesis by simp
qed

lemma shrink64_ge_1:
  assumes "0 < w" and "0 < h" and "w \<le> 1568" and "h \<le> 1568"
    and "real (w * h) \<le> MAX_IMAGE_PIXELS"
  shows "shrink64 r w h \<ge> 1"
proof -
  have a: "1 \<le> to_nearest r (MAX_IMAGE_DIMENSION / real w)"
    by (rule fl_ge_1) (use assms in \<open>simp add: MAX_IMAGE_DIMENSION_def\<close>)
  have b: "1 \<le> to_nearest r (MAX_IMAGE_DIMENSION / real h)"
    by (rule fl_ge_1) (use assms in \<open>simp add: MAX_IMAGE_DIMENSION_def\<close>)
  have "real (w * h) < real 1205863"
    using assms(5) by (simp add: MAX_IMAGE_PIXELS_def)
  then have "w * h < 1205863" by (simp only: of_nat_less_iff)
  then have "w * h \<le> 1205862" by simp
  then have "real (w * h) \<le> real 1205862" by (simp only: of_nat_le_iff)
  then have p: "real (w * h) \<le> 12058623 / 10" by simp
  then have "real (w * h) \<le> 2 ^ 53" by simp
  then have e: "to_nearest r (real w * real h) = real (w * h)" by (rule pixels_exact)
  have pos: "0 < real (w * h)" using assms by simp
  have "real (w * h) \<le> MAX_IMAGE_PIXELS64 r"
    using p MAX_IMAGE_PIXELS64_bounds(1) [of r] by (rule order_trans)
  then have "1 \<le> MAX_IMAGE_PIXELS64 r / real (w * h)"
    using pos by (simp add: le_divide_eq)
  then have "1 \<le> to_nearest r (MAX_IMAGE_PIXELS64 r / real (w * h))" by (rule fl_ge_1)
  then have "1 \<le> sqrt (to_nearest r (MAX_IMAGE_PIXELS64 r / real (w * h)))" by simp
  then have c: "1 \<le> to_nearest r (sqrt (to_nearest r (MAX_IMAGE_PIXELS64 r / real (w * h))))"
    by (rule fl_ge_1)
  show ?thesis
    unfolding shrink64_def e using a b c by simp
qed






section \<open>Image scaling\<close>
















lemma shrink_ge_1_iff:
  assumes "0 < w" "0 < h"
  shows "shrink w h \<ge> 1 \<longleftrightarrow> w \<le> 1568 \<and> h \<le> 1568 \<and> real (w * h) \<le> MAX_IMAGE_PIXELS"
proof -
  have a: "MAX_IMAGE_DIMENSION / real w \<ge> 1 \<longleftrightarrow> w \<le> 1568"
    using assms by (simp add: MAX_IMAGE_DIMENSION_def)
  have b: "MAX_IMAGE_DIMENSION / real h \<ge> 1 \<longleftrightarrow> h \<le> 1568"
    using assms by (simp add: MAX_IMAGE_DIMENSION_def)
  have "0 < real (w * h)" using assms by simp
  then have c: "sqrt (MAX_IMAGE_PIXELS / real (w * h)) \<ge> 1 \<longleftrightarrow> real (w * h) \<le> MAX_IMAGE_PIXELS"
    by (simp only: real_sqrt_ge_1_iff le_divide_eq_1_pos)
  show ?thesis
    unfolding shrink_def by (simp only: min.bounded_iff a b c) simp
qed

lemma scaleImage_under_budget:
  assumes "map_of item (js ''mimeType'') = Some (JStr (js ''image/webp''))"
    and "map_of item (js ''data'') = Some d"
    and "metadata env d = Some (Some w, Some h)"
    and "w \<le> 1568" and "h \<le> 1568" and "real (w * h) \<le> MAX_IMAGE_PIXELS"
  shows "scaleImage env (JObj item) = JObj item"
proof (cases "w = 0 \<or> h = 0")
  case True
  with assms show ?thesis by (auto simp: scaleImage_def)
next
  case False
  then have "shrink64 (double env) w h \<ge> 1" using assms by (intro shrink64_ge_1) simp_all
  with assms False show ?thesis by (simp add: scaleImage_def)
qed

text \<open>
  Claim C4. For every image content item whose pixel dimensions are at or under both
  budgets (long edge at most 1568 and pixel count at most the pixel budget, so that the
  shrink factor is at least 1) and whose encoding is already \<open>image/webp\<close>, the
  transformer returns the item unchanged.
\<close>

theorem image_under_budget_unchanged:
  assumes "map_of item (js ''type'') = Some (JStr (js ''image''))"
    and "map_of item (js ''mimeType'') = Some (JStr (js ''image/webp''))"
    and "map_of item (js ''data'') = Some d" and "truthy (Some d)"
    and "metadata env d = Some (Some w, Some h)"
    and "max w h \<le> 1568" and "real (w * h) \<le> MAX_IMAGE_PIXELS"
  shows "(0 < w \<and> 0 < h \<longrightarrow> shrink w h \<ge> 1) \<and>
         scaleImage env (JObj item) = JObj item \<and>
         transform_item env (JObj item) = Inr (JObj item)"
proof -
  have "scaleImage env (JObj item) = JObj item"
    using assms by (intro scaleImage_under_budget [where d = d and w = w and h = h]) simp_all
  moreover have "0 < w \<and> 0 < h \<longrightarrow> shrink w h \<ge> 1"
    using assms by (simp add: shrink_ge_1_iff)
  ultimately show ?thesis using assms by (simp add: transform_item_def)
qed

theorem image_under_budget_unchanged_witness:
  "scaleImage test_sharp
     (JObj [(js ''type'', JStr (js ''image'')), (js ''data'', JStr (js ''AAAA'')),
            (js ''mimeType'', JStr (js ''image/webp''))])
   = JObj [(js ''type'', JStr (js ''image'')), (js ''data'', JStr (js ''AAAA'')),
            (js ''mimeType'', JStr (js ''image/webp''))] \<and>
   transform_item test_sharp
     (JObj [(js ''type'', JStr (js ''image'')), (js ''data'', JStr (js ''AAAA'')),
            (js ''mimeType'', JStr (js ''image/webp''))])
   = Inr (JObj [(js ''type'', JStr (js ''image'')), (js ''data'', JStr (js ''AAAA'')),
            (js ''mimeType'', JStr (js ''image/webp''))])"
  using image_under_budget_unchanged [of
      "[(js ''type'', JStr (js ''image'')), (js ''data'', JStr (js ''AAAA'')),
        (js ''mimeType'', JStr (js ''image/webp''))]" "JStr (js ''AAAA'')" test_sharp 100 50]
  by (simp add: test_sharp_def MAX_IMAGE_PIXELS_def js_def)








section \<open>Failures of the image library\<close>

lemma scaleImage_fails:
  assumes "map_of item (js ''data'') = Some d" and "decode_or_encode_fails env d"
  shows "scaleImage env (JObj item) = JObj item"
proof (cases "metadata env d")
  case None
  with assms(1) show ?thesis by (simp add: scaleImage_def)
next
  case (Some m)
  obtain mw mh where m: "m = (mw, mh)" by (cases m)
  show ?thesis
  proof (cases mw)
    case None
    with Some m assms(1) show ?thesis by (simp add: scaleImage_def)
  next
    case w: (Some w)
    show ?thesis
    proof (cases mh)
      case None
      with Some m w assms(1) show ?thesis by (simp add: scaleImage_def)
    next
      case h: (Some h)
      from assms(2) Some m w h have
        "w = 0 \<or> h = 0 \<or>
          (if shrink64 (double env) w h \<ge> 1 then webp env d = None
           else resize_webp env d (scaled_width (double env) w h)
                  (scaled_height (double env) w h) = None)"
        by (simp add: decode_or_encode_fails_def)
      with Some m w h assms(1) show ?thesis
        by (auto simp: scaleImage_def split: if_splits)
    qed
  qed
qed

lemma transform_item_total: "item \<noteq> JNull \<Longrightarrow> \<exists>out. transform_item env item = Inr out"
  by (auto simp: transform_item_def split: json.splits option.splits)

lemma transform_items_nth:
  "JNull \<notin> set items \<Longrightarrow>
     \<exists>items'. transform_items env items = Inr items' \<and> length items' = length items \<and>
       (\<forall>i < length items. transform_item env (items ! i) = Inr (items' ! i))"
proof (induction items)
  case Nil
  show ?case by simp
next
  case (Cons item items)
  then have "item \<noteq> JNull" and tl: "JNull \<notin> set items" by auto
  then obtain out where out: "transform_item env item = Inr out"
    using transform_item_total by blast
  from Cons.IH [OF tl] obtain items' where
    r: "transform_items env items = Inr items'" and l: "length items' = length items"
    and n: "\<forall>i < length items. transform_item env (items ! i) = Inr (items' ! i)"
    by blast
  have "\<forall>i < length (item # items). transform_item env ((item # items) ! i) = Inr ((out # items') ! i)"
    using out n by (auto simp: nth_Cons split: nat.splits)
  with out r l show ?case by simp
qed

lemma transform_item_failed_image:
  assumes "is_image_item (JObj item)" and "map_of item (js ''data'') = Some d"
    and "decode_or_encode_fails env d"
  shows "transform_item env (JObj item) = Inr (JObj item)"
  using assms scaleImage_fails [OF assms(2,3)]
  by (simp add: transform_item_def is_image_item_def)

text \<open>
  Claim C8. For every image content item on which decoding or encoding fails (items
  whose metadata reports no width or height included), the transformer returns the
  original item unmodified rather than dropping it or raising an error, so the
  transformed response has as many content items as the input response.
\<close>

theorem failed_image_passes_through:
  assumes "map_of resp (js ''jsonrpc'') \<noteq> None" and "map_of resp (js ''id'') \<noteq> None"
    and "map_of resp (js ''result'') = Some (JObj result)"
    and "map_of result (js ''content'') = Some (JArr content)"
    and "JNull \<notin> set content"
  shows "\<exists>content'.
           transformMcpResponse env (JObj resp) =
             Inr (JObj (spread_set resp (js ''result'')
                    (JObj (spread_set result (js ''content'') (JArr content'))))) \<and>
           length content' = length content \<and>
           (\<forall>i < length content. \<forall>item d.
              content ! i = JObj item \<and> is_image_item (JObj item) \<and>
              map_of item (js ''data'') = Some d \<and> decode_or_encode_fails env d
              \<longrightarrow> scaleImage env (JObj item) = JObj item \<and> content' ! i = content ! i)"
proof -
  from transform_items_nth [OF assms(5), of env] obtain content' where
    r: "transform_items env content = Inr content'" and l: "length content' = length content"
    and n: "\<forall>i < length content. transform_item env (content ! i) = Inr (content' ! i)"
    by blast
  have run: "transformMcpResponse env (JObj resp) =
             Inr (JObj (spread_set resp (js ''result'')
                    (JObj (spread_set result (js ''content'') (JArr content')))))"
    using assms(1-4) r by (simp add: transformMcpResponse_def isJsonRpcResponse_def)
  have keep: "scaleImage env (JObj item) = JObj item \<and> content' ! i = content ! i"
    if "i < length content" "content ! i = JObj item" "is_image_item (JObj item)"
      "map_of item (js ''data'') = Some d" "decode_or_encode_fails env d" for i item d
  proof -
    have "transform_item env (content ! i) = Inr (JObj item)"
      using transform_item_failed_image [OF that(3,4,5)] that(2) by simp
    with n [rule_format, OF that(1)] that(2) have "content' ! i = content ! i" by simp
    with scaleImage_fails [OF that(4,5)] show ?thesis by simp
  qed
  show ?thesis
    using run l keep by blast
qed

theorem failed_image_passes_through_witness:
  "\<exists>content'.
     transformMcpResponse test_sharp
       (JObj [(js ''jsonrpc'', JStr (js ''2.0'')), (js ''id'', JNum 1),
              (js ''result'', JObj [(js ''content'',
                 JArr [JObj [(js ''type'', JStr (js ''image'')), (js ''data'', JStr (js ''ZZZZ''))]])])])
     = Inr (JObj [(js ''jsonrpc'', JStr (js ''2.0'')), (js ''id'', JNum 1),
              (js ''result'', JObj [(js ''content'', JArr content')])]) \<and>
     length content' = 1 \<and>
     content' ! 0 = JObj [(js ''type'', JStr (js ''image'')), (js ''data'', JStr (js ''ZZZZ''))]"
  using failed_image_passes_through [of
      "[(js ''jsonrpc'', JStr (js ''2.0'')), (js ''id'', JNum 1),
        (js ''result'', JObj [(js ''content'',
           JArr [JObj [(js ''type'', JStr (js ''image'')), (js ''data'', JStr (js ''ZZZZ''))]])])]"
      "[(js ''content'', JArr [JObj [(js ''type'', JStr (js ''image'')), (js ''data'', JStr (js ''ZZZZ''))]])]"
      "[JObj [(js ''type'', JStr (js ''image'')), (js ''data'', JStr (js ''ZZZZ''))]]"
      test_sharp]
  by (auto simp: test_sharp_def spread_set_def is_image_item_def decode_or_encode_fails_def)

section \<open>Protocol bridge: failures\<close>

lemma stdout_log [simp]: "stdout (log m s) = stdout s"
  by (simp add: log_def)

lemma stderr_log [simp]: "stderr (log m s) = stderr s @ [js ''[abp-proxy] '' @ m @ [10]]"
  by (simp add: log_def)

lemma stdout_ensureBrowser: "ensureBrowser w s = (r, s1) \<Longrightarrow> stdout s1 = stdout s"
  by (auto simp: ensureBrowser_def Let_def split: if_splits sum.splits)

lemma stdout_launch_on_initialize: "launch_on_initialize w msg s = (r, s1) \<Longrightarrow> stdout s1 = stdout s"
  by (auto simp: launch_on_initialize_def stdout_ensureBrowser split: if_splits)

lemma forwardToMcp_rejects:
  assumes "forwardToMcp_http w line (mcpSessionId s) = (hdr, Inl err)"
  shows "\<exists>s1. forwardToMcp w line s = (Inl err, s1) \<and> stdout s1 = stdout s \<and> stderr s1 = stderr s"
  using assms by (auto simp: forwardToMcp_def Let_def split: option.splits)

lemma request_line_neq: "request_line \<noteq> notification_line"
  by (simp add: request_line_def notification_line_def quoted_def js_def)

text \<open>
  Claim C7. For every incoming message whose forwarding fails: when the message has an
  \<open>id\<close> field, exactly one output line is written, an error reply carrying the original
  identifier and an error object with the code -32000; when it has none, no output line is
  written and one log message goes to the error stream.
\<close>

theorem forward_failure_reply:
  assumes "JSON_parse w line = Inr (JObj msg)"
    and "launch_on_initialize w msg s = (Inr (), s1)"
    and "forwardToMcp_http w line (mcpSessionId s1) = (hdr, Inl err)"
  shows "(\<forall>rid. map_of msg (js ''id'') = Some rid \<longrightarrow>
            (\<exists>reply. stdout (handleMessage w line s) = stdout s @ [reply] \<and>
               reply = error_reply (Some rid) (- 32000) (js ''Proxy error: '' @ message err) \<and>
               get_prop reply (js ''id'') = Some rid \<and>
               get_prop reply (js ''error'') =
                 Some (JObj [(js ''code'', JNum (- 32000)),
                             (js ''message'', JStr (js ''Proxy error: '' @ message err))]) \<and>
               stderr (handleMessage w line s) = stderr s1)) \<and>
         (map_of msg (js ''id'') = None \<longrightarrow>
            stdout (handleMessage w line s) = stdout s \<and>
            stderr (handleMessage w line s) =
              stderr s1 @ [js ''[abp-proxy] Error forwarding notification: '' @ message err @ [10]])"
proof -
  from forwardToMcp_rejects [OF assms(3)] obtain s2 where
    f: "forwardToMcp w line s1 = (Inl err, s2)" and o: "stdout s2 = stdout s1"
    and e: "stderr s2 = stderr s1"
    by blast
  have o1: "stdout s1 = stdout s"
    by (rule stdout_launch_on_initialize [OF assms(2)])
  have run: "handleMessage w line s =
      forward_failed (map_of msg (js ''id'') \<noteq> None) (map_of msg (js ''id'')) err s2"
    using assms(1,2) f by (simp add: handleMessage_def forward_block_def)
  show ?thesis
    unfolding run using o o1 e
    by (auto simp: forward_failed_def sendError_def error_reply_def)
qed

theorem forward_failure_reply_witness:
  "stdout (handleMessage test_world request_line idle_bridge) =
     [JObj [(js ''jsonrpc'', JStr (js ''2.0'')), (js ''id'', JNum 7),
            (js ''error'', JObj [(js ''code'', JNum (- 32000)),
               (js ''message'', JStr (js ''Proxy error: connect ECONNREFUSED 127.0.0.1:8222''))])]] \<and>
   stdout (handleMessage test_world notification_line idle_bridge) = [] \<and>
   stderr (handleMessage test_world notification_line idle_bridge) =
     [js ''[abp-proxy] Error forwarding notification: connect ECONNREFUSED 127.0.0.1:8222'' @ [10]]"
proof -
  have r: "JSON_parse test_world request_line =
      Inr (JObj [(js ''jsonrpc'', JStr (js ''2.0'')), (js ''id'', JNum 7),
                 (js ''method'', JStr (js ''tools/list''))])"
    by (simp add: test_world_def)
  have n: "JSON_parse test_world notification_line =
      Inr (JObj [(js ''jsonrpc'', JStr (js ''2.0'')),
                 (js ''method'', JStr (js ''notifications/initialized''))])"
    using request_line_neq by (auto simp: test_world_def)
  have f: "forwardToMcp_http test_world l (mcpSessionId idle_bridge) = (None, Inl refused)" for l
    by (simp add: test_world_def)
  have a: "stdout (handleMessage test_world request_line idle_bridge) =
     [JObj [(js ''jsonrpc'', JStr (js ''2.0'')), (js ''id'', JNum 7),
            (js ''error'', JObj [(js ''code'', JNum (- 32000)),
               (js ''message'', JStr (js ''Proxy error: connect ECONNREFUSED 127.0.0.1:8222''))])]]"
    using forward_failure_reply [OF r _ f, of idle_bridge]
    by (simp add: launch_on_initialize_def idle_bridge_def refused_def error_reply_def)
  have b: "stdout (handleMessage test_world notification_line idle_bridge) = [] \<and>
   stderr (handleMessage test_world notification_line idle_bridge) =
     [js ''[abp-proxy] Error forwarding notification: connect ECONNREFUSED 127.0.0.1:8222'' @ [10]]"
    using forward_failure_reply [OF n _ f, of idle_bridge]
    by (simp add: launch_on_initialize_def idle_bridge_def refused_def)
  show ?thesis using a b by simp
qed

text \<open>
  A response body that does not parse is handled by the same \<open>catch\<close>: an error reply
  for a request, a log message for a notification.
\<close>

lemma unparsable_response_reply:
  assumes "JSON_parse w line = Inr (JObj msg)"
    and "launch_on_initialize w msg s = (Inr (), s1)"
    and "forwardToMcp_http w line (mcpSessionId s1) = (hdr, Inr (status, raw))"
    and "status \<noteq> 202" and "raw \<noteq> []" and "JSON_parse w raw = Inl err"
  shows "stdout (handleMessage w line s) =
           (case map_of msg (js ''id'') of
              None \<Rightarrow> stdout s
            | Some rid \<Rightarrow>
                stdout s @ [error_reply (Some rid) (- 32000) (js ''Proxy error: '' @ message err)])"
proof -
  have o1: "stdout s1 = stdout s"
    by (rule stdout_launch_on_initialize [OF assms(2)])
  obtain s2 where f: "forwardToMcp w line s1 = (Inr raw, s2)" and o: "stdout s2 = stdout s1"
    using assms(3,4) by (auto simp: forwardToMcp_def Let_def split: option.splits)
  have "handleMessage w line s =
      forward_failed (map_of msg (js ''id'') \<noteq> None) (map_of msg (js ''id'')) err s2"
    using assms(1,2,5,6) f by (simp add: handleMessage_def forward_block_def)
  then show ?thesis
    using o o1 by (auto simp: forward_failed_def sendError_def split: option.splits)
qed

text \<open>
  Claim C10. For every input line that is not valid JSON, the bridge writes nothing to its
  output stream, leaves the engine instance and the session token as they are, and goes on
  with the following lines; the only effect is one log message on the error stream (none
  when the line is blank, which the listener skips before parsing).
\<close>

theorem invalid_json_line:
  assumes "JSON_parse w line = Inl e"
  shows "stdout (on_line w line s) = stdout s \<and>
         browser (on_line w line s) = browser s \<and>
         mcpSessionId (on_line w line s) = mcpSessionId s \<and>
         unhandled (on_line w line s) = unhandled s \<and>
         stderr (on_line w line s) =
           (if trim line = [] then stderr s
            else stderr s @ [js ''[abp-proxy] Invalid JSON: '' @ take 100 line @ [10]]) \<and>
         on_lines w (line # rest) s =
           on_lines w rest (s\<lparr>stderr := stderr (on_line w line s)\<rparr>)"
  using assms by (simp add: on_line_def handleMessage_def log_def)

theorem invalid_json_line_witness:
  "stdout (on_line test_world (js ''{oops'') idle_bridge) = [] \<and>
   browser (on_line test_world (js ''{oops'') idle_bridge) = False \<and>
   mcpSessionId (on_line test_world (js ''{oops'') idle_bridge) = None \<and>
   stderr (on_line test_world (js ''{oops'') idle_bridge) = [js ''[abp-proxy] Invalid JSON: {oops'' @ [10]]"
proof -
  have p: "JSON_parse test_world (js ''{oops'') = Inl (Exn (js ''Unexpected token''))"
    by (simp add: test_world_def request_line_def notification_line_def quoted_def js_def)
  have t: "trim (js ''{oops'') \<noteq> []"
    by (simp add: trim_def is_space_def js_def)
  show ?thesis
    using invalid_json_line [OF p, of idle_bridge "[]"] t
    by (simp add: idle_bridge_def)
qed

section \<open>Process supervisor: start\<close>

lemma deliver_data:
  "list_all is_data es \<Longrightarrow> deliver es (s, out) = (s, out @ stderr_text es)"
proof (induction es arbitrary: out)
  case Nil
  show ?case by simp
next
  case (Cons e es)
  then show ?case by (cases e) simp_all
qed

lemma deliver_text: "snd (deliver es (s, out)) = out @ stderr_text es"
proof (induction es arbitrary: s out)
  case Nil
  show ?case by simp
next
  case (Cons e es)
  show ?case by (cases e) (simp_all add: Cons.IH)
qed

lemma deliver_signals: "signals (fst (deliver es (s, out))) = signals s"
proof (induction es arbitrary: s out)
  case Nil
  show ?case by simp
next
  case (Cons e es)
  show ?case by (cases e) (simp_all add: Cons.IH)
qed

lemma deliver_spawn_calls: "spawn_calls (fst (deliver es (s, out))) = spawn_calls s"
proof (induction es arbitrary: s out)
  case Nil
  show ?case by simp
next
  case (Cons e es)
  show ?case by (cases e) (simp_all add: Cons.IH)
qed

lemma deliver_gone_stays: "abpProcess s = None \<Longrightarrow> abpProcess (fst (deliver es (s, out))) = None"
proof (induction es arbitrary: s out)
  case Nil
  then show ?case by simp
next
  case (Cons e es)
  then show ?case by (cases e) simp_all
qed

lemma deliver_gone:
  "\<not> list_all is_data es \<Longrightarrow> abpProcess (fst (deliver es (s, out))) = None"
proof (induction es arbitrary: s out)
  case Nil
  then show ?case by simp
next
  case (Cons e es)
  then show ?case by (cases e) (simp_all add: deliver_gone_stays)
qed

lemma wait_ready_idle:
  "list_all idle_poll ps \<Longrightarrow> is_live s \<Longrightarrow>
     wait_ready (ps @ rest) out s = wait_ready rest (out @ captured ps) s"
proof (induction ps arbitrary: out)
  case Nil
  show ?case by simp
next
  case (Cons p ps)
  then have p: "idle_poll p" and ps: "list_all idle_poll ps" by simp_all
  from p have "wait_ready ((p # ps) @ rest) out s =
      wait_ready (ps @ rest) (out @ stderr_text (events p) @ stderr_text (probe_events p)) s"
    using Cons.prems(2) by (simp add: idle_poll_def deliver_data)
  also have "\<dots> = wait_ready rest (out @ captured (p # ps)) s"
    using Cons.IH [OF ps Cons.prems(2)] by simp
  finally show ?case .
qed

lemma not_live_None: "abpProcess s = None \<Longrightarrow> \<not> is_live s"
  by (simp add: is_live_def)

lemma wait_ready_timeout:
  assumes "elapsed p \<ge> 15000"
  shows "\<exists>s'. wait_ready (p # rest) out s =
           Some (Failed (with_hint (js ''ABP failed to start within 15 seconds'')
                   (out @ stderr_text (events p))), s') \<and>
         abpProcess s' = None \<and> spawn_calls s' = spawn_calls s \<and>
         signals s' = (if list_all is_data (events p) \<and> abpProcess s \<noteq> None
                       then signals s @ [SIGTERM] else signals s)"
proof -
  obtain s1 out1 where d: "deliver (events p) (s, out) = (s1, out1)"
    by (cases "deliver (events p) (s, out)")
  have o: "out1 = out @ stderr_text (events p)"
    using deliver_text [of "events p" s out] d by simp
  have g: "signals s1 = signals s" "spawn_calls s1 = spawn_calls s"
    using deliver_signals [of "events p" s out] deliver_spawn_calls [of "events p" s out] d
    by simp_all
  show ?thesis
  proof (cases "list_all is_data (events p)")
    case True
    then have "s1 = s" using deliver_data [OF True, of s out] d by simp
    with assms d o True show ?thesis by auto
  next
    case False
    then have "abpProcess s1 = None" using deliver_gone [OF False, of s out] d by simp
    with assms d o False g show ?thesis by simp
  qed
qed

lemma wait_ready_exited:
  assumes "elapsed p < 15000" and "\<not> list_all is_data (events p) \<or> abpProcess s = None"
  shows "\<exists>s'. wait_ready (p # rest) out s =
           Some (Failed (with_hint (js ''ABP process exited immediately'')
                   (out @ stderr_text (events p))), s') \<and>
         abpProcess s' = None \<and> spawn_calls s' = spawn_calls s \<and> signals s' = signals s"
proof -
  obtain s1 out1 where d: "deliver (events p) (s, out) = (s1, out1)"
    by (cases "deliver (events p) (s, out)")
  have o: "out1 = out @ stderr_text (events p)"
    using deliver_text [of "events p" s out] d by simp
  have g: "signals s1 = signals s" "spawn_calls s1 = spawn_calls s"
    using deliver_signals [of "events p" s out] deliver_spawn_calls [of "events p" s out] d
    by simp_all
  have "abpProcess s1 = None"
    using assms(2) deliver_gone [of "events p" s out] deliver_gone_stays [of s "events p" out] d
    by auto
  with assms(1) d o g show ?thesis by (simp add: not_live_None)
qed

lemma length_hint: "length (hint t) \<le> 200"
  by (simp add: hint_def)

lemma startAbp_spawns:
  assumes "spawns w config s"
  shows "\<exists>s2 call. is_live s2 \<and> signals s2 = signals s \<and>
           spawn_calls s2 = spawn_calls s @ [call] \<and>
           stdin_mode call = Ignore \<and> stdout_mode call = Ignore \<and> stderr_mode call = Pipe \<and>
           (\<forall>polls. startAbp w polls abpUrl config s =
              (case wait_ready polls [] s2 of None \<Rightarrow> None | Some (r, s3) \<Rightarrow> Some (Returned r, s3)))"
proof -
  from assms obtain bin c where b: "executablePath config = Some bin" "bin \<noteq> []" "existsSync w bin"
    and c: "spawn_result w = Inr c" "exitCode c = None"
    by (auto simp: spawns_def split: option.splits sum.splits)
  from assms have m: "existsSync w (sessionDir config) \<or> mkdirSync w (sessionDir config) = None"
    and l: "\<not> is_live s" "\<not> initial_healthy w"
    by (simp_all add: spawns_def)
  let ?call = "\<lparr>binary = bin, args = launchArgs (getAbpPort w abpUrl) config,
                 stdin_mode = Ignore, stdout_mode = Ignore, stderr_mode = Pipe\<rparr>"
  let ?s1 = "if existsSync w (sessionDir config) then s
             else s\<lparr>mkdirs := mkdirs s @ [sessionDir config]\<rparr>"
  let ?s2 = "?s1\<lparr>spawn_calls := spawn_calls ?s1 @ [?call], abpProcess := Some c\<rparr>"
  have run: "startAbp w polls abpUrl config s =
      (case wait_ready polls [] ?s2 of None \<Rightarrow> None | Some (r, s3) \<Rightarrow> Some (Returned r, s3))"
    for polls
    using b c m l by (auto simp: startAbp_def Let_def)
  have "is_live ?s2" using c by (simp add: is_live_def)
  moreover have "signals ?s2 = signals s" by simp
  moreover have "spawn_calls ?s2 = spawn_calls s @ [?call]" by simp
  moreover have "stdin_mode ?call = Ignore \<and> stdout_mode ?call = Ignore \<and> stderr_mode ?call = Pipe"
    by simp
  ultimately show ?thesis using run by blast
qed

lemma captured_append: "captured (ps @ qs) = captured ps @ captured qs"
  by (induction ps) simp_all

lemma wait_ready_probe_exit:
  assumes "is_live s" and "elapsed p < 15000" and "list_all is_data (events p)"
    and "\<not> healthy p" and "\<not> list_all is_data (probe_events p)"
  shows "\<exists>s3. wait_ready (p # rest) out s =
                wait_ready rest (out @ stderr_text (events p) @ stderr_text (probe_events p)) s3 \<and>
              abpProcess s3 = None \<and> signals s3 = signals s \<and> spawn_calls s3 = spawn_calls s"
proof -
  obtain s3 out3 where d: "deliver (probe_events p) (s, out @ stderr_text (events p)) = (s3, out3)"
    by (cases "deliver (probe_events p) (s, out @ stderr_text (events p))")
  have o3: "out3 = out @ stderr_text (events p) @ stderr_text (probe_events p)"
    using deliver_text [of "probe_events p" s "out @ stderr_text (events p)"] d by simp
  have g3: "abpProcess s3 = None"
    using deliver_gone [OF assms(5), of s "out @ stderr_text (events p)"] d by simp
  have sg3: "signals s3 = signals s" "spawn_calls s3 = spawn_calls s"
    using deliver_signals [of "probe_events p" s "out @ stderr_text (events p)"]
      deliver_spawn_calls [of "probe_events p" s "out @ stderr_text (events p)"] d by simp_all
  have "wait_ready (p # rest) out s = wait_ready rest out3 s3"
    using assms(1-4) d by (simp add: deliver_data)
  with o3 g3 sg3 show ?thesis by blast
qed

lemma startAbp_after_idle:
  assumes "spawns w config s" and "list_all idle_poll ps"
  shows "\<exists>s2 call. is_live s2 \<and> signals s2 = signals s \<and>
           spawn_calls s2 = spawn_calls s @ [call] \<and>
           stdin_mode call = Ignore \<and> stdout_mode call = Ignore \<and> stderr_mode call = Pipe \<and>
           (\<forall>tail. startAbp w (ps @ tail) abpUrl config s =
              (case wait_ready tail (captured ps) s2 of
                 None \<Rightarrow> None | Some (r, s3) \<Rightarrow> Some (Returned r, s3)))"
proof -
  from startAbp_spawns [OF assms(1), of abpUrl] obtain s2 call where
    live: "is_live s2" and sg: "signals s2 = signals s"
    and sc: "spawn_calls s2 = spawn_calls s @ [call]"
    and io: "stdin_mode call = Ignore" "stdout_mode call = Ignore" "stderr_mode call = Pipe"
    and run: "\<And>polls. startAbp w polls abpUrl config s =
              (case wait_ready polls [] s2 of None \<Rightarrow> None | Some (r, s3) \<Rightarrow> Some (Returned r, s3))"
    by blast
  have "startAbp w (ps @ tail) abpUrl config s =
          (case wait_ready tail (captured ps) s2 of
             None \<Rightarrow> None | Some (r, s3) \<Rightarrow> Some (Returned r, s3))" for tail
    using wait_ready_idle [OF assms(2) live, of tail "[]"] by (simp add: run)
  with live sg sc io show ?thesis by blast
qed

text \<open>
  The statement of claim C2 fails when the process exits after the last readiness check
  within the ceiling: the exit is not reported as a launch failure but as a timeout, and
  no signal is sent, the handle being cleared already.
\<close>

theorem exit_in_last_window_is_timeout:
  "map_option fst
     (startAbp test_sys [waiting, late_exit] (js ''http://localhost:8222'') test_config idle_supervisor) =
     Some (Returned (Failed (js ''ABP failed to start within 15 seconds: starting no display''))) \<and>
   map_option (signals \<circ> snd)
     (startAbp test_sys [waiting, late_exit] (js ''http://localhost:8222'') test_config idle_supervisor) =
     Some []"
proof -
  have h: "with_hint (js ''ABP failed to start within 15 seconds'')
             (js ''starting '' @ js ''no display'') =
           js ''ABP failed to start within 15 seconds: starting no display''"
    by (simp add: with_hint_def hint_def trim_def is_space_def js_def)
  show ?thesis
    by (simp add: startAbp_def test_sys_def test_config_def idle_supervisor_def is_live_def
        waiting_def late_exit_def Let_def h del: js_append)
qed

text \<open>
  Claim C2, amended. Take a start invocation that spawns the engine and whose readiness
  checks within the 15-second ceiling never see it healthy. If no exit or error of the
  process has been delivered when the loop test first reads a time past the ceiling,
  \<open>start\<close> sends the process the termination signal, returns the LaunchTimeout error, and
  no process handle remains. If an exit or error has been delivered before a check made
  within the ceiling (before that check, or while the previous probe was awaited),
  \<open>start\<close> returns the LaunchFailed error at that check and sends no signal. If the exit or
  error is delivered only after the last check within the ceiling, \<open>start\<close> returns the
  LaunchTimeout error and sends no signal. In every case no process handle remains, and
  the error carries at most 200 characters of diagnostic text, taken from the trimmed
  data of the process's error stream only (its standard output is not connected).
\<close>

theorem start_never_ready:
  assumes "spawns w config s" and "list_all idle_poll ps"
  shows "(elapsed p \<ge> 15000 \<and> list_all is_data (events p) \<longrightarrow>
            (\<exists>s'. startAbp w (ps @ p # rest) abpUrl config s =
                     Some (Returned (LaunchTimeout (captured ps @ stderr_text (events p))), s') \<and>
                   gave_up s [SIGTERM] s')) \<and>
         (elapsed p < 15000 \<and> \<not> list_all is_data (events p) \<longrightarrow>
            (\<exists>s'. startAbp w (ps @ p # rest) abpUrl config s =
                     Some (Returned (LaunchFailed (captured ps @ stderr_text (events p))), s') \<and>
                   gave_up s [] s')) \<and>
         (elapsed p < 15000 \<and> list_all is_data (events p) \<and> \<not> healthy p \<and>
          \<not> list_all is_data (probe_events p) \<and> elapsed p' < 15000 \<longrightarrow>
            (\<exists>s'. startAbp w (ps @ p # p' # rest) abpUrl config s =
                     Some (Returned (LaunchFailed (captured (ps @ [p]) @ stderr_text (events p'))), s') \<and>
                   gave_up s [] s')) \<and>
         (elapsed p \<ge> 15000 \<and> \<not> list_all is_data (events p) \<longrightarrow>
            (\<exists>s'. startAbp w (ps @ p # rest) abpUrl config s =
                     Some (Returned (LaunchTimeout (captured ps @ stderr_text (events p))), s') \<and>
                   gave_up s [] s')) \<and>
         (elapsed p < 15000 \<and> list_all is_data (events p) \<and> \<not> healthy p \<and>
          \<not> list_all is_data (probe_events p) \<and> elapsed p' \<ge> 15000 \<longrightarrow>
            (\<exists>s'. startAbp w (ps @ p # p' # rest) abpUrl config s =
                     Some (Returned (LaunchTimeout (captured (ps @ [p]) @ stderr_text (events p'))), s') \<and>
                   gave_up s [] s')) \<and>
         (\<forall>t. length (take 200 (trim t)) \<le> 200 \<and>
            LaunchTimeout t =
              Failed (js ''ABP failed to start within 15 seconds'' @
                      (if take 200 (trim t) = [] then [] else js '': '' @ take 200 (trim t))) \<and>
            LaunchFailed t =
              Failed (js ''ABP process exited immediately'' @
                      (if take 200 (trim t) = [] then [] else js '': '' @ take 200 (trim t))))"
proof -
  from startAbp_after_idle [OF assms, of abpUrl] obtain s2 call where
    live: "is_live s2" and sg: "signals s2 = signals s"
    and sc: "spawn_calls s2 = spawn_calls s @ [call]"
    and io: "stdin_mode call = Ignore" "stdout_mode call = Ignore" "stderr_mode call = Pipe"
    and run: "\<And>tail. startAbp w (ps @ tail) abpUrl config s =
              (case wait_ready tail (captured ps) s2 of
                 None \<Rightarrow> None | Some (r, s3) \<Rightarrow> Some (Returned r, s3))"
    by blast
  have some: "abpProcess s2 \<noteq> None"
    using live by (auto simp: is_live_def split: option.splits)
  have fin: "gave_up s sent s'"
    if "abpProcess s' = None" "spawn_calls s' = spawn_calls s2" "signals s' = signals s2 @ sent"
    for s' sent
    using that sg sc io by (simp add: gave_up_def)
  have c1: "\<exists>s'. startAbp w (ps @ p # rest) abpUrl config s =
                     Some (Returned (LaunchTimeout (captured ps @ stderr_text (events p))), s') \<and>
                   gave_up s [SIGTERM] s'"
    if "elapsed p \<ge> 15000" "list_all is_data (events p)"
  proof -
    from wait_ready_timeout [OF that(1), of rest "captured ps" s2] obtain s' where
      r: "wait_ready (p # rest) (captured ps) s2 =
           Some (Failed (with_hint (js ''ABP failed to start within 15 seconds'')
                   (captured ps @ stderr_text (events p))), s')"
      and e: "abpProcess s' = None" "spawn_calls s' = spawn_calls s2"
      "signals s' = (if list_all is_data (events p) \<and> abpProcess s2 \<noteq> None
                       then signals s2 @ [SIGTERM] else signals s2)"
      by blast
    have "gave_up s [SIGTERM] s'"
      by (rule fin) (use e that(2) some in simp_all)
    with r show ?thesis
      by (simp add: run LaunchTimeout_def del: wait_ready.simps)
  qed
  have c2: "\<exists>s'. startAbp w (ps @ p # rest) abpUrl config s =
                     Some (Returned (LaunchFailed (captured ps @ stderr_text (events p))), s') \<and>
                   gave_up s [] s'"
    if "elapsed p < 15000" "\<not> list_all is_data (events p)"
  proof -
    from wait_ready_exited [where p = p and rest = rest and out = "captured ps" and s = s2] that
    obtain s' where
      r: "wait_ready (p # rest) (captured ps) s2 =
           Some (Failed (with_hint (js ''ABP process exited immediately'')
                   (captured ps @ stderr_text (events p))), s')"
      and e: "abpProcess s' = None" "spawn_calls s' = spawn_calls s2" "signals s' = signals s2"
      by blast
    have "gave_up s [] s'"
      by (rule fin) (use e in simp_all)
    with r show ?thesis
      by (simp add: run LaunchFailed_def del: wait_ready.simps)
  qed
  have c4: "\<exists>s'. startAbp w (ps @ p # rest) abpUrl config s =
                     Some (Returned (LaunchTimeout (captured ps @ stderr_text (events p))), s') \<and>
                   gave_up s [] s'"
    if "elapsed p \<ge> 15000" "\<not> list_all is_data (events p)"
  proof -
    from wait_ready_timeout [OF that(1), of rest "captured ps" s2] obtain s' where
      r: "wait_ready (p # rest) (captured ps) s2 =
           Some (Failed (with_hint (js ''ABP failed to start within 15 seconds'')
                   (captured ps @ stderr_text (events p))), s')"
      and e: "abpProcess s' = None" "spawn_calls s' = spawn_calls s2"
      "signals s' = (if list_all is_data (events p) \<and> abpProcess s2 \<noteq> None
                       then signals s2 @ [SIGTERM] else signals s2)"
      by blast
    have "gave_up s [] s'"
      by (rule fin) (use e that(2) in simp_all)
    with r show ?thesis
      by (simp add: run LaunchTimeout_def del: wait_ready.simps)
  qed
  have probe: "\<exists>s3. wait_ready (p # tail) (captured ps) s2 =
                  wait_ready tail (captured (ps @ [p])) s3 \<and>
                abpProcess s3 = None \<and> signals s3 = signals s2 \<and>
                spawn_calls s3 = spawn_calls s2"
    if "elapsed p < 15000" "list_all is_data (events p)" "\<not> healthy p"
      "\<not> list_all is_data (probe_events p)" for tail
    using wait_ready_probe_exit [OF live that, of tail "captured ps"]
    by (auto simp: captured_append)
  have c3: "\<exists>s'. startAbp w (ps @ p # p' # rest) abpUrl config s =
                     Some (Returned (LaunchFailed (captured (ps @ [p]) @ stderr_text (events p'))), s') \<and>
                   gave_up s [] s'"
    if "elapsed p < 15000" "list_all is_data (events p)" "\<not> healthy p"
      "\<not> list_all is_data (probe_events p)" "elapsed p' < 15000"
  proof -
    from probe [OF that(1-4), of "p' # rest"] obtain s3 where
      st: "wait_ready (p # p' # rest) (captured ps) s2 =
             wait_ready (p' # rest) (captured (ps @ [p])) s3"
      and g: "abpProcess s3 = None" and sg3: "signals s3 = signals s2"
      and sc3: "spawn_calls s3 = spawn_calls s2"
      by blast
    from wait_ready_exited [where p = p' and rest = rest and out = "captured (ps @ [p])" and s = s3]
      that(5) g
    obtain s' where
      r: "wait_ready (p' # rest) (captured (ps @ [p])) s3 =
           Some (Failed (with_hint (js ''ABP process exited immediately'')
                   (captured (ps @ [p]) @ stderr_text (events p'))), s')"
      and e: "abpProcess s' = None" "spawn_calls s' = spawn_calls s3" "signals s' = signals s3"
      by blast
    have "gave_up s [] s'"
      by (rule fin) (use e sg3 sc3 in simp_all)
    with r show ?thesis
      by (simp add: run st LaunchFailed_def del: wait_ready.simps)
  qed
  have c5: "\<exists>s'. startAbp w (ps @ p # p' # rest) abpUrl config s =
                     Some (Returned (LaunchTimeout (captured (ps @ [p]) @ stderr_text (events p'))), s') \<and>
                   gave_up s [] s'"
    if "elapsed p < 15000" "list_all is_data (events p)" "\<not> healthy p"
      "\<not> list_all is_data (probe_events p)" "elapsed p' \<ge> 15000"
  proof -
    from probe [OF that(1-4), of "p' # rest"] obtain s3 where
      st: "wait_ready (p # p' # rest) (captured ps) s2 =
             wait_ready (p' # rest) (captured (ps @ [p])) s3"
      and g: "abpProcess s3 = None" and sg3: "signals s3 = signals s2"
      and sc3: "spawn_calls s3 = spawn_calls s2"
      by blast
    from wait_ready_timeout [OF that(5), of rest "captured (ps @ [p])" s3] obtain s' where
      r: "wait_ready (p' # rest) (captured (ps @ [p])) s3 =
           Some (Failed (with_hint (js ''ABP failed to start within 15 seconds'')
                   (captured (ps @ [p]) @ stderr_text (events p'))), s')"
      and e: "abpProcess s' = None" "spawn_calls s' = spawn_calls s3"
      "signals s' = (if list_all is_data (events p') \<and> abpProcess s3 \<noteq> None
                       then signals s3 @ [SIGTERM] else signals s3)"
      by blast
    have "gave_up s [] s'"
      by (rule fin) (use e g sg3 sc3 in simp_all)
    with r show ?thesis
      by (simp add: run st LaunchTimeout_def del: wait_ready.simps)
  qed
  have c6: "length (take 200 (trim t)) \<le> 200 \<and>
            LaunchTimeout t =
              Failed (js ''ABP failed to start within 15 seconds'' @
                      (if take 200 (trim t) = [] then [] else js '': '' @ take 200 (trim t))) \<and>
            LaunchFailed t =
              Failed (js ''ABP process exited immediately'' @
                      (if take 200 (trim t) = [] then [] else js '': '' @ take 200 (trim t)))" for t
    by (simp add: LaunchTimeout_def LaunchFailed_def with_hint_def hint_def)
  show ?thesis
    using c1 c2 c3 c4 c5 c6 by blast
qed

theorem start_never_ready_witness:
  "(\<exists>s'. startAbp test_sys [waiting, too_late] (js ''http://localhost:8222'') test_config idle_supervisor =
           Some (Returned (Failed (js ''ABP failed to start within 15 seconds: starting still starting'')), s') \<and>
         abpProcess s' = None \<and> signals s' = [SIGTERM]) \<and>
   (\<exists>s'. startAbp test_sys [waiting, crashed] (js ''http://localhost:8222'') test_config idle_supervisor =
           Some (Returned (Failed (js ''ABP process exited immediately: starting no display'')), s') \<and>
         abpProcess s' = None \<and> signals s' = []) \<and>
   (\<exists>s'. startAbp test_sys [waiting, late_exit] (js ''http://localhost:8222'') test_config idle_supervisor =
           Some (Returned (Failed (js ''ABP failed to start within 15 seconds: starting no display'')), s') \<and>
         abpProcess s' = None \<and> signals s' = [])"
proof -
  have sp: "spawns test_sys test_config idle_supervisor"
    by (simp add: spawns_def test_sys_def test_config_def idle_supervisor_def is_live_def)
  have idle: "list_all idle_poll [waiting]"
    by (simp add: idle_poll_def waiting_def)
  have h1: "LaunchTimeout (captured [waiting] @ stderr_text (events too_late)) =
            Failed (js ''ABP failed to start within 15 seconds: starting still starting'')"
    by (simp add: LaunchTimeout_def with_hint_def hint_def trim_def is_space_def waiting_def
        too_late_def js_def)
  have h2: "LaunchFailed (captured [waiting] @ stderr_text (events crashed)) =
            Failed (js ''ABP process exited immediately: starting no display'')"
    by (simp add: LaunchFailed_def with_hint_def hint_def trim_def is_space_def waiting_def
        crashed_def js_def)
  have h3: "LaunchTimeout (captured [waiting] @ stderr_text (events late_exit)) =
            Failed (js ''ABP failed to start within 15 seconds: starting no display'')"
    by (simp add: LaunchTimeout_def with_hint_def hint_def trim_def is_space_def waiting_def
        late_exit_def js_def)
  have a: "\<exists>s'. startAbp test_sys [waiting, too_late] (js ''http://localhost:8222'') test_config idle_supervisor =
           Some (Returned (Failed (js ''ABP failed to start within 15 seconds: starting still starting'')), s') \<and>
         abpProcess s' = None \<and> signals s' = [SIGTERM]"
    using start_never_ready [OF sp idle, of too_late "[]" "js ''http://localhost:8222''"]
    unfolding h1 by (auto simp: too_late_def idle_supervisor_def gave_up_def)
  have b: "\<exists>s'. startAbp test_sys [waiting, crashed] (js ''http://localhost:8222'') test_config idle_supervisor =
           Some (Returned (Failed (js ''ABP process exited immediately: starting no display'')), s') \<and>
         abpProcess s' = None \<and> signals s' = []"
    using start_never_ready [OF sp idle, of crashed "[]" "js ''http://localhost:8222''"]
    unfolding h2 by (auto simp: crashed_def idle_supervisor_def gave_up_def)
  have c: "\<exists>s'. startAbp test_sys [waiting, late_exit] (js ''http://localhost:8222'') test_config idle_supervisor =
           Some (Returned (Failed (js ''ABP failed to start within 15 seconds: starting no display'')), s') \<and>
         abpProcess s' = None \<and> signals s' = []"
    using start_never_ready [OF sp idle, of late_exit "[]" "js ''http://localhost:8222''"]
    unfolding h3 by (auto simp: late_exit_def idle_supervisor_def gave_up_def)
  show ?thesis using a b c by blast
qed


text \<open>
  Claim C1. A call of \<open>start\<close> while a supervised process handle is live fails with the
  error "already running" and spawns nothing; otherwise, when the health probe already
  reports readiness at the target endpoint, it fails with the error "already running at
  the endpoint", spawns nothing and leaves the foreign process alone.
\<close>

theorem start_refused:
  "(is_live s \<longrightarrow>
      startAbp w polls abpUrl config s =
        Some (Returned (Failed (js ''ABP process already running'')), s)) \<and>
   (\<not> is_live s \<and> initial_healthy w \<longrightarrow>
      startAbp w polls abpUrl config s =
        Some (Returned (Failed (js ''ABP is already running at '' @ abpUrl)), s)) \<and>
   (is_live s \<or> initial_healthy w \<longrightarrow>
      (\<exists>r s'. startAbp w polls abpUrl config s = Some (Returned (Failed r), s') \<and>
         spawn_calls s' = spawn_calls s \<and> signals s' = signals s \<and>
         abpProcess s' = abpProcess s \<and> mkdirs s' = mkdirs s))"
  by (auto simp: startAbp_def)

theorem start_refused_witness:
  "startAbp test_sys [] (js ''http://localhost:8222'') test_config
     (idle_supervisor\<lparr>abpProcess := Some \<lparr>exitCode = None\<rparr>\<rparr>) =
     Some (Returned (Failed (js ''ABP process already running'')),
           idle_supervisor\<lparr>abpProcess := Some \<lparr>exitCode = None\<rparr>\<rparr>) \<and>
   startAbp (test_sys\<lparr>initial_healthy := True\<rparr>) [] (js ''http://localhost:8222'') test_config
     idle_supervisor =
     Some (Returned (Failed (js ''ABP is already running at http://localhost:8222'')), idle_supervisor)"
  using start_refused [of "idle_supervisor\<lparr>abpProcess := Some \<lparr>exitCode = None\<rparr>\<rparr>"
      test_sys "[]" "js ''http://localhost:8222''" test_config]
    start_refused [of idle_supervisor "test_sys\<lparr>initial_healthy := True\<rparr>" "[]"
      "js ''http://localhost:8222''" test_config]
  by (simp add: is_live_def idle_supervisor_def test_sys_def)

section \<open>Session attacher: watermark and reattachment\<close>

lemma on_settled_mono: "lastMaxId s \<le> lastMaxId (on_settled q s)"
  by (simp add: on_settled_def split: sum.splits)

lemma on_settled_keeps:
  "currentSessionDir (on_settled q s) = currentSessionDir s \<and> db (on_settled q s) = db s \<and>
   sessionId (on_settled q s) = sessionId s \<and> ops (on_settled q s) = ops s"
  by (simp add: on_settled_def split: sum.splits)

lemma settle_all_mono: "lastMaxId s \<le> lastMaxId (settle_all qs s)"
proof (induction qs arbitrary: s)
  case Nil
  show ?case by simp
next
  case (Cons q qs)
  have "lastMaxId s \<le> lastMaxId (on_settled q s)" by (rule on_settled_mono)
  also have "\<dots> \<le> lastMaxId (settle_all qs (on_settled q s))" by (rule Cons.IH)
  finally show ?case by simp
qed

lemma settle_all_append: "settle_all (qs @ qs') s = settle_all qs' (settle_all qs s)"
  by (induction qs arbitrary: s) simp_all

lemma settle_all_keeps:
  "currentSessionDir (settle_all qs s) = currentSessionDir s \<and> db (settle_all qs s) = db s"
  by (induction qs arbitrary: s) (simp_all add: on_settled_keeps)

text \<open>
  Claim C3. For every sequence of debounced change-watch callbacks on a fixed session
  directory, whatever maxima the store reports and in whatever order, the watermark never
  decreases, and a callback notifies the subscribers, with the new identifier, exactly when
  the recomputed maximum is strictly greater than the stored watermark.
\<close>

theorem watermark_monotone:
  "lastMaxId (settle_all qs s) \<le> lastMaxId (settle_all (qs @ qs') s) \<and>
   currentSessionDir (settle_all qs s) = currentSessionDir s \<and>
   (\<forall>m. db s \<noteq> None \<and> max_or_zero m > lastMaxId s \<longrightarrow>
      lastMaxId (on_settled (Inr m) s) = max_or_zero m \<and>
      broadcasts (on_settled (Inr m) s) = broadcasts s @ [Refresh (max_or_zero m)]) \<and>
   (\<forall>q. \<not> (db s \<noteq> None \<and> (\<exists>m. q = Inr m \<and> max_or_zero m > lastMaxId s)) \<longrightarrow>
      on_settled q s = s)"
proof -
  have "lastMaxId (settle_all qs s) \<le> lastMaxId (settle_all (qs @ qs') s)"
    by (simp add: settle_all_append settle_all_mono)
  moreover have "currentSessionDir (settle_all qs s) = currentSessionDir s"
    by (simp add: settle_all_keeps)
  moreover have "\<forall>m. db s \<noteq> None \<and> max_or_zero m > lastMaxId s \<longrightarrow>
      lastMaxId (on_settled (Inr m) s) = max_or_zero m \<and>
      broadcasts (on_settled (Inr m) s) = broadcasts s @ [Refresh (max_or_zero m)]"
    by (simp add: on_settled_def)
  moreover have "\<forall>q. \<not> (db s \<noteq> None \<and> (\<exists>m. q = Inr m \<and> max_or_zero m > lastMaxId s)) \<longrightarrow>
      on_settled q s = s"
    by (auto simp: on_settled_def split: sum.splits)
  ultimately show ?thesis by blast
qed

theorem watermark_monotone_witness:
  "lastMaxId (settle_all [Inr (Some 9), Inr (Some 6)] attached) = 9 \<and>
   broadcasts (settle_all [Inr (Some 9), Inr (Some 6)] attached) = [Refresh 9] \<and>
   broadcasts (on_settled (Inr (Some 9)) attached) = broadcasts attached @ [Refresh 9] \<and>
   on_settled (Inr (Some 3)) attached = attached \<and>
   lastMaxId (settle_all [Inr (Some 9)] attached) \<le> lastMaxId (settle_all ([Inr (Some 9)] @ [Inr (Some 6)]) attached)"
  using watermark_monotone [of "[Inr (Some 9)]" attached "[Inr (Some 6)]"]
  by (simp add: attached_def on_settled_def max_or_zero_def)

text \<open>
  The statement of claim C9 fails: a successful attach on the directory that is already
  open closes the store and the watcher and opens both anew.
\<close>

theorem attach_same_directory_reopens:
  "session_data test_store = Some (currentSessionDir attached) \<and> db attached \<noteq> None \<and>
   fst (attachToAbp test_store attached) = Inr True \<and>
   \<not> handles_in_place attached (snd (attachToAbp test_store attached)) \<and>
   ops (snd (attachToAbp test_store attached)) =
     [DbClose 0, DbOpen 2 (js ''/tmp/s''), WatcherClose 1, WatcherStart 3 (js ''/tmp/s'')]"
  by (simp add: attachToAbp_def openSessionDb_def test_store_def attached_def
      handles_in_place_def max_or_zero_def Let_def)

lemma openSessionDb_attachable:
  assumes "attachable w dir sid m"
  shows "openSessionDb w dir s =
           (Inr True,
            s\<lparr>db := Some (next_handle s), watcher := Some (Suc (next_handle s)),
              next_handle := Suc (Suc (next_handle s)), sessionId := sid,
              lastMaxId := max_or_zero m, currentSessionDir := dir,
              ops := ops s @ closing DbClose (db s) @ [DbOpen (next_handle s) dir] @
                     closing WatcherClose (watcher s) @
                     [WatcherStart (Suc (next_handle s)) dir]\<rparr>)"
proof (cases "db s")
  case None
  show ?thesis
  proof (cases "watcher s")
    case n: None
    with None assms show ?thesis
      by (simp add: openSessionDb_def attachable_def closing_def Let_def)
  next
    case (Some b)
    with None assms show ?thesis
      by (simp add: openSessionDb_def attachable_def closing_def Let_def)
  qed
next
  case (Some a)
  show ?thesis
  proof (cases "watcher s")
    case None
    with Some assms show ?thesis
      by (simp add: openSessionDb_def attachable_def closing_def Let_def)
  next
    case b: (Some b)
    with Some assms show ?thesis
      by (simp add: openSessionDb_def attachable_def closing_def Let_def)
  qed
qed

lemma openSessionDb_True:
  assumes "fst (openSessionDb w dir s) = Inr True"
  shows "\<exists>sid m. db_exists w dir \<and> db_open w dir = None \<and> db_pragma w dir = None \<and>
           latest_session w dir = Inr (Some sid) \<and> max_action w dir sid = Inr m \<and>
           watch w dir = None"
  using assms
  by (auto simp: openSessionDb_def Let_def split: if_splits option.splits sum.splits)

lemma attachToAbp_True_iff:
  "fst (attachToAbp w s) = Inr True \<longleftrightarrow> (\<exists>dir sid m. attachable w dir sid m)"
proof
  assume t: "fst (attachToAbp w s) = Inr True"
  then obtain dir where d: "session_data w = Some dir"
    by (cases "session_data w") (auto simp: attachToAbp_def)
  with t have "fst (openSessionDb w dir s) = Inr True"
    by (auto simp: attachToAbp_def split: prod.splits sum.splits)
  from openSessionDb_True [OF this] d show "\<exists>dir sid m. attachable w dir sid m"
    by (auto simp: attachable_def)
next
  assume "\<exists>dir sid m. attachable w dir sid m"
  then obtain dir sid m where a: "attachable w dir sid m" by blast
  then have "session_data w = Some dir" by (simp add: attachable_def)
  then show "fst (attachToAbp w s) = Inr True"
    by (simp add: attachToAbp_def openSessionDb_attachable [OF a])
qed

text \<open>
  Claim C9, amended. An attach operation returns true exactly when the engine returns a
  session directory, the store file exists there and opens (pragma included), the store
  holds a session whose maximum action identifier can be read, and the watch on the
  directory starts. Every such attach closes the store that is open (if any), opens the
  store at the resolved directory, sets the watermark to the current maximum, closes the
  watcher that runs (if any), starts a watcher on the directory and notifies the
  subscribers, whether or not the resolved directory equals the one currently open. When
  the engine returns no directory or the directory has no store file, the attach returns
  false and leaves the store, the watcher and everything else as they are.
\<close>

theorem attach_always_reopens:
  "(fst (attachToAbp w s) = Inr True \<longleftrightarrow> (\<exists>dir sid m. attachable w dir sid m)) \<and>
   (\<forall>dir sid m. attachable w dir sid m \<longrightarrow>
      (\<exists>s'. attachToAbp w s = (Inr True, s') \<and>
         ops s' = ops s @ closing DbClose (db s) @ [DbOpen (next_handle s) dir] @
                  closing WatcherClose (watcher s) @ [WatcherStart (Suc (next_handle s)) dir] \<and>
         db s' = Some (next_handle s) \<and> watcher s' = Some (Suc (next_handle s)) \<and>
         next_handle s' = Suc (Suc (next_handle s)) \<and>
         currentSessionDir s' = dir \<and> sessionId s' = sid \<and> lastMaxId s' = max_or_zero m \<and>
         broadcasts s' = broadcasts s @ [SessionChanged dir])) \<and>
   (session_data w = None \<or> (\<exists>dir. session_data w = Some dir \<and> \<not> db_exists w dir) \<longrightarrow>
      attachToAbp w s = (Inr False, s))"
proof -
  have b: "\<exists>s'. attachToAbp w s = (Inr True, s') \<and>
         ops s' = ops s @ closing DbClose (db s) @ [DbOpen (next_handle s) dir] @
                  closing WatcherClose (watcher s) @ [WatcherStart (Suc (next_handle s)) dir] \<and>
         db s' = Some (next_handle s) \<and> watcher s' = Some (Suc (next_handle s)) \<and>
         next_handle s' = Suc (Suc (next_handle s)) \<and>
         currentSessionDir s' = dir \<and> sessionId s' = sid \<and> lastMaxId s' = max_or_zero m \<and>
         broadcasts s' = broadcasts s @ [SessionChanged dir]"
    if a: "attachable w dir sid m" for dir sid m
  proof -
    from a have "session_data w = Some dir" by (simp add: attachable_def)
    then show ?thesis
      by (simp add: attachToAbp_def openSessionDb_attachable [OF a])
  qed
  have c: "attachToAbp w s = (Inr False, s)"
    if "session_data w = None \<or> (\<exists>dir. session_data w = Some dir \<and> \<not> db_exists w dir)"
    using that by (auto simp: attachToAbp_def openSessionDb_def)
  show ?thesis
    using attachToAbp_True_iff [of w s] b c by blast
qed

theorem attach_always_reopens_witness:
  "\<exists>s'. attachToAbp test_store attached = (Inr True, s') \<and>
     ops s' = [DbClose 0, DbOpen 2 (js ''/tmp/s''), WatcherClose 1, WatcherStart 3 (js ''/tmp/s'')] \<and>
     db s' = Some 2 \<and> watcher s' = Some 3 \<and> currentSessionDir s' = js ''/tmp/s'' \<and>
     lastMaxId s' = 4 \<and> broadcasts s' = [SessionChanged (js ''/tmp/s'')]"
proof -
  have a: "attachable test_store (js ''/tmp/s'') (js ''s1'') (Some 4)"
    by (simp add: attachable_def test_store_def)
  show ?thesis
    using attach_always_reopens [of test_store attached, THEN conjunct2, THEN conjunct1,
        rule_format, OF a]
    by (auto simp: attached_def closing_def max_or_zero_def)
qed

text \<open>
  The status route is the path that compares the directories: with the engine running,
  the same directory reported and a store open, it leaves the handles in place.
\<close>

lemma status_check_keeps_open_store:
  assumes "session_data w = Some (currentSessionDir s)" and "db s \<noteq> None"
  shows "\<exists>s'. control_status w True s = (None, s') \<and> handles_in_place s s' \<and>
           broadcasts s' = broadcasts s"
  using assms by (auto simp: control_status_def handles_in_place_def)

end
